theory Spec2Isabelle
  imports Complex_Main "HOL-Library.Word"
begin

section \<open>JavaScript strings\<close>

text \<open>
  A JavaScript string is a sequence of 16-bit UTF-16 code units; \<open>length\<close>, the regular
  expressions without the \<open>u\<close> flag, \<open>split\<close>, \<open>trim\<close> and \<open>substring\<close> all work on
  code units. \<open>js\<close> writes an ASCII literal of the source as such a sequence.
\<close>

type_synonym cu = "16 word"
type_synonym jsstring = "cu list"

definition js :: "string \<Rightarrow> jsstring" where
  "js s = map of_char s"

text \<open>
  \<open>s.replace(/[...]/g, r)\<close> for a pattern that is one character class: every code unit in
  the class is replaced by \<open>r\<close>, every other one is copied.
\<close>

definition replace_class :: "(cu \<Rightarrow> bool) \<Rightarrow> jsstring \<Rightarrow> jsstring \<Rightarrow> jsstring" where
  "replace_class cls r s = concat (map (\<lambda>c. if cls c then r else [c]) s)"

section \<open>lib/text/sanitize.ts\<close>

text \<open>The class \<open>/\u0000/\<close>.\<close>

definition is_nul :: "cu \<Rightarrow> bool" where
  "is_nul c \<longleftrightarrow> c = 0x0000"

text \<open>The class \<open>/[\u0001-\u0008\u000B\u000C\u000E-\u001F]/\<close>.\<close>

definition is_stripped_control :: "cu \<Rightarrow> bool" where
  "is_stripped_control c \<longleftrightarrow>
     (0x0001 \<le> c \<and> c \<le> 0x0008) \<or> c = 0x000B \<or> c = 0x000C \<or> (0x000E \<le> c \<and> c \<le> 0x001F)"

definition sanitizeForPostgresText :: "jsstring \<Rightarrow> jsstring" where
  "sanitizeForPostgresText input =
     replace_class is_stripped_control [] (replace_class is_nul [] input)"

text \<open>
  The vocabulary of the sanitizer's contract. The control characters of Unicode (general
  category Cc) are the C0 range U+0000..U+001F, DEL U+007F and the C1 range U+0080..U+009F;
  tab, line feed and carriage return are U+0009, U+000A and U+000D.
\<close>

definition is_c0_control :: "cu \<Rightarrow> bool" where
  "is_c0_control c \<longleftrightarrow> c \<le> 0x001F"

definition is_control :: "cu \<Rightarrow> bool" where
  "is_control c \<longleftrightarrow> c \<le> 0x001F \<or> (0x007F \<le> c \<and> c \<le> 0x009F)"

definition is_tab_lf_cr :: "cu \<Rightarrow> bool" where
  "is_tab_lf_cr c \<longleftrightarrow> c = 0x0009 \<or> c = 0x000A \<or> c = 0x000D"

section \<open>lib/safety/redact.ts\<close>

text \<open>
  The two patterns of \<open>redactPII\<close> are \<open>/\b\d{3}-\d{2}-\d{4}\b/g\<close> and \<open>/\b\d{16}\b/g\<close>:
  a fixed, non-empty sequence of one-character atoms between two word boundaries. Without
  the \<open>u\<close> and \<open>i\<close> flags \<open>\d\<close> is \<open>[0-9]\<close> and \<open>\w\<close> is \<open>[A-Za-z0-9_]\<close>.
\<close>

datatype atom = Digit | Lit cu

definition is_digit :: "cu \<Rightarrow> bool" where
  "is_digit c \<longleftrightarrow> 0x0030 \<le> c \<and> c \<le> 0x0039"

definition is_word_char :: "cu \<Rightarrow> bool" where
  "is_word_char c \<longleftrightarrow>
     (0x0041 \<le> c \<and> c \<le> 0x005A) \<or> (0x0061 \<le> c \<and> c \<le> 0x007A) \<or> is_digit c \<or> c = 0x005F"

fun atom_matches :: "atom \<Rightarrow> cu \<Rightarrow> bool" where
  "atom_matches Digit c = is_digit c"
| "atom_matches (Lit l) c = (c = l)"

fun matches_prefix :: "atom list \<Rightarrow> jsstring \<Rightarrow> bool" where
  "matches_prefix [] s = True"
| "matches_prefix (a # as) [] = False"
| "matches_prefix (a # as) (c # cs) = (atom_matches a c \<and> matches_prefix as cs)"

definition nth_opt :: "'a list \<Rightarrow> nat \<Rightarrow> 'a option" where
  "nth_opt xs i = (if i < length xs then Some (xs ! i) else None)"

text \<open>
  \<open>\b\<close> holds between two neighbouring positions when exactly one of them is a word
  character; the start and the end of the string count as non-word.
\<close>

definition word_boundary :: "cu option \<Rightarrow> cu option \<Rightarrow> bool" where
  "word_boundary left right \<longleftrightarrow>
     (case left of None \<Rightarrow> False | Some c \<Rightarrow> is_word_char c)
       \<noteq> (case right of None \<Rightarrow> False | Some c \<Rightarrow> is_word_char c)"

text \<open>
  One attempt of \<open>/\bPAT\b/\<close> at a position: \<open>prev\<close> is the code unit before the position,
  \<open>s\<close> the rest of the string from the position on.
\<close>

definition matches_bounded :: "atom list \<Rightarrow> cu option \<Rightarrow> jsstring \<Rightarrow> bool" where
  "matches_bounded pat prev s \<longleftrightarrow>
     word_boundary prev (nth_opt s 0) \<and> matches_prefix pat s
       \<and> word_boundary (nth_opt s (length pat - 1)) (nth_opt s (length pat))"

text \<open>
  \<open>s.replace(/\bPAT\b/g, r)\<close>: the scan goes left to right; a match is replaced by \<open>r\<close> and
  the scan resumes behind it, otherwise the code unit is copied and the scan moves on by one.
\<close>

fun replace_bounded :: "atom list \<Rightarrow> jsstring \<Rightarrow> cu option \<Rightarrow> jsstring \<Rightarrow> jsstring" where
  "replace_bounded pat r prev [] = []"
| "replace_bounded pat r prev (c # cs) =
     (if matches_bounded pat prev (c # cs)
      then r @ replace_bounded pat r (nth_opt (c # cs) (length pat - 1)) (drop (length pat - 1) cs)
      else c # replace_bounded pat r (Some c) cs)"

definition ssn_pattern :: "atom list" where
  "ssn_pattern = replicate 3 Digit @ [Lit 0x002D] @ replicate 2 Digit @ [Lit 0x002D]
     @ replicate 4 Digit"

definition card_pattern :: "atom list" where
  "card_pattern = replicate 16 Digit"

definition redactPII :: "jsstring \<Rightarrow> jsstring" where
  "redactPII txt =
     replace_bounded card_pattern (js ''[REDACTED_CARD]'') None
       (replace_bounded ssn_pattern (js ''[REDACTED_SSN]'') None txt)"

section \<open>Values, errors and the relational store\<close>

text \<open>
  The values \<open>JSON.parse\<close> returns. Numbers are carried, never computed on. An object is
  the list of its members, in order, with distinct keys.
\<close>

datatype json =
    JNull
  | JBool bool
  | JNumber real
  | JString jsstring
  | JArray "json list"
  | JObject "(jsstring \<times> json) list"

text \<open>
  A thrown value, as the \<open>catch\<close> blocks of the route handlers see it: they read
  \<open>err?.message\<close> only.
\<close>

datatype thrown = Thrown (message: "jsstring option")

definition Error :: "string \<Rightarrow> thrown" where
  "Error m = Thrown (Some (js m))"

text \<open>\<open>err?.message ?? "Unknown error"\<close>\<close>

definition error_message :: "thrown \<Rightarrow> jsstring" where
  "error_message err = (case message err of None \<Rightarrow> js ''Unknown error'' | Some m \<Rightarrow> m)"

text \<open>
  \<open>v.k\<close> on a parsed value, for a key \<open>k\<close> that no prototype defines (the handlers read
  \<open>schema\<close>, \<open>extracted\<close>, \<open>confidence\<close>, \<open>field\<close> and \<open>query\<close>): reading a member of
  \<open>null\<close> throws a TypeError (the wording of the message is V8's), an object yields its
  member or \<open>undefined\<close> (\<open>None\<close>), every other value yields \<open>undefined\<close>.
\<close>

fun get_member :: "json \<Rightarrow> string \<Rightarrow> thrown + json option" where
  "get_member JNull k =
     Inl (Thrown (Some (js ''Cannot read properties of null (reading '' @ [0x0027] @ js k
       @ [0x0027] @ js '')'')))"
| "get_member (JObject kvs) k = Inr (map_of kvs (js k))"
| "get_member v k = Inr None"

text \<open>\<open>v ?? {}\<close>\<close>

fun or_empty_object :: "json option \<Rightarrow> json" where
  "or_empty_object None = JObject []"
| "or_empty_object (Some JNull) = JObject []"
| "or_empty_object (Some v) = v"

text \<open>
  The tables of the store, each in insertion order. \<open>vector\<close> is pgvector's array of
  floating-point numbers. The creation timestamps are left out: no handler modelled here
  reads them.
\<close>

type_synonym vector = "real list"

record document =
  doc_id :: jsstring
  doc_filename :: jsstring
  doc_text :: jsstring
  doc_schema :: json
  doc_extracted :: json
  doc_confidence :: json
  doc_status :: jsstring

record embedding =
  emb_id :: jsstring
  emb_documentId :: jsstring
  emb_vector :: vector

record tool_call =
  tc_id :: jsstring
  tc_type :: jsstring
  tc_name :: jsstring
  tc_arguments :: jsstring

record chat_message =
  msg_id :: jsstring
  msg_documentId :: jsstring
  msg_role :: jsstring
  msg_content :: jsstring
  msg_toolCalls :: "tool_call list option"

record db =
  documents :: "document list"
  embeddings :: "embedding list"
  chatMessages :: "chat_message list"

text \<open>
  An insert either throws or generates the row's identifier; \<open>outcome\<close> is what the store
  does at this call. The primary key rejects an identifier that is already in the table.
\<close>

definition document_create ::
  "thrown + jsstring \<Rightarrow> document \<Rightarrow> db \<Rightarrow> thrown + (document \<times> db)" where
  "document_create outcome d s =
     (case outcome of
        Inl err \<Rightarrow> Inl err
      | Inr i \<Rightarrow>
          if i \<in> set (map doc_id (documents s))
          then Inl (Error ''Unique constraint failed on the fields: (`id`)'')
          else (let row = d\<lparr>doc_id := i\<rparr>
                in Inr (row, s\<lparr>documents := documents s @ [row]\<rparr>)))"

text \<open>The foreign keys and primary keys of the migration, as a predicate on the store.\<close>

definition db_ok :: "db \<Rightarrow> bool" where
  "db_ok s \<longleftrightarrow>
     distinct (map doc_id (documents s))
     \<and> list_all (\<lambda>e. emb_documentId e \<in> set (map doc_id (documents s))) (embeddings s)
     \<and> list_all (\<lambda>m. msg_documentId m \<in> set (map doc_id (documents s))) (chatMessages s)"

definition embeddings_of :: "db \<Rightarrow> jsstring \<Rightarrow> embedding list" where
  "embeddings_of s i = filter (\<lambda>e. emb_documentId e = i) (embeddings s)"

section \<open>lib/ocr/ocr.ts\<close>

text \<open>
  More of the string library: \<open>startsWith\<close>, \<open>endsWith\<close>, and \<open>trim\<close>, which strips the
  white space and line terminators of ECMAScript from both ends.
\<close>

definition startsWith :: "jsstring \<Rightarrow> jsstring \<Rightarrow> bool" where
  "startsWith s p \<longleftrightarrow> take (length p) s = p"

definition endsWith :: "jsstring \<Rightarrow> jsstring \<Rightarrow> bool" where
  "endsWith s p \<longleftrightarrow> length p \<le> length s \<and> drop (length s - length p) s = p"

definition is_js_space :: "cu \<Rightarrow> bool" where
  "is_js_space c \<longleftrightarrow>
     (0x0009 \<le> c \<and> c \<le> 0x000D) \<or> c = 0x0020 \<or> c = 0x00A0 \<or> c = 0x1680
     \<or> (0x2000 \<le> c \<and> c \<le> 0x200A) \<or> c = 0x2028 \<or> c = 0x2029 \<or> c = 0x202F
     \<or> c = 0x205F \<or> c = 0x3000 \<or> c = 0xFEFF"

definition trim :: "jsstring \<Rightarrow> jsstring" where
  "trim s = rev (dropWhile is_js_space (rev (dropWhile is_js_space s)))"

record js_file =
  file_name :: jsstring
  file_type :: jsstring
  file_bytes :: "8 word list"

text \<open>
  What the ingestion route reaches outside the repository: \<open>File.text()\<close> (UTF-8 decoding),
  \<open>extractText\<close> of unpdf, \<open>toLowerCase\<close>, the completion call of schema discovery (given
  the user content, it throws or yields \<open>res.choices[0]?.message?.content\<close>, \<open>None\<close> when
  that is \<open>null\<close> or \<open>undefined\<close>), \<open>JSON.parse\<close>, the embedding call (it throws or yields
  \<open>data[0].embedding\<close>), and the outcomes of the two inserts.
\<close>

record ingest_env =
  file_text :: "8 word list \<Rightarrow> jsstring"
  pdf_extractText :: "8 word list \<Rightarrow> thrown + jsstring"
  toLowerCase :: "jsstring \<Rightarrow> jsstring"
  discovery_completion :: "jsstring \<Rightarrow> thrown + jsstring option"
  JSON_parse :: "jsstring \<Rightarrow> thrown + json"
  document_insert :: "thrown + jsstring"
  embeddings_create :: "jsstring \<Rightarrow> thrown + vector"
  embedding_insert :: "thrown + jsstring"

definition extractTextFromFile :: "ingest_env \<Rightarrow> js_file \<Rightarrow> thrown + jsstring" where
  "extractTextFromFile env f =
     (if startsWith (file_type f) (js ''text/'') then Inr (file_text env (file_bytes f))
      else if file_type f = js ''application/pdf''
              \<or> endsWith (toLowerCase env (file_name f)) (js ''.pdf'')
      then pdf_extractText env (file_bytes f)
      else Inr [])"

section \<open>lib/llm/schemaDiscovery.ts\<close>

record discovered =
  d_schema :: json
  d_extracted :: json
  d_confidence :: json

text \<open>
  The user content of the completion call: the text cut to 40000 code units, or
  \<open>"(empty)"\<close> for the empty text (\<open>input || "(empty)"\<close>). The system instruction is a
  constant of the call.
\<close>

definition discovery_input :: "jsstring \<Rightarrow> jsstring" where
  "discovery_input txt =
     (let input = (if length txt > 40000 then take 40000 txt else txt)
      in if input = [] then js ''(empty)'' else input)"

definition discoverSchemaAndExtract :: "ingest_env \<Rightarrow> jsstring \<Rightarrow> thrown + discovered" where
  "discoverSchemaAndExtract env txt =
     (case discovery_completion env (discovery_input txt) of
        Inl err \<Rightarrow> Inl err
      | Inr None \<Rightarrow> Inl (Error ''LLM returned empty response'')
      | Inr (Some content) \<Rightarrow>
          if content = [] then Inl (Error ''LLM returned empty response'')
          else (case JSON_parse env content of
                  Inl err \<Rightarrow> Inl err
                | Inr parsed \<Rightarrow>
                    (case get_member parsed ''schema'' of
                       Inl err \<Rightarrow> Inl err
                     | Inr sch \<Rightarrow>
                         (case get_member parsed ''extracted'' of
                            Inl err \<Rightarrow> Inl err
                          | Inr ext \<Rightarrow>
                              (case get_member parsed ''confidence'' of
                                 Inl err \<Rightarrow> Inl err
                               | Inr conf \<Rightarrow>
                                   Inr \<lparr>d_schema = or_empty_object sch,
                                        d_extracted = or_empty_object ext,
                                        d_confidence = or_empty_object conf\<rparr>)))))"

section \<open>lib/vector/embed.ts\<close>

definition embedAndStore :: "ingest_env \<Rightarrow> jsstring \<Rightarrow> jsstring \<Rightarrow> db \<Rightarrow> thrown + db" where
  "embedAndStore env docId txt s =
     (case embeddings_create env txt of
        Inl err \<Rightarrow> Inl err
      | Inr v \<Rightarrow>
          (case embedding_insert env of
             Inl err \<Rightarrow> Inl err
           | Inr i \<Rightarrow>
               Inr (s\<lparr>embeddings := embeddings s
                       @ [\<lparr>emb_id = i, emb_documentId = docId, emb_vector = v\<rparr>]\<rparr>)))"

section \<open>app/api/ingest/route.ts\<close>

text \<open>
  The request is its form data: reading it throws, or \<open>form.get("file")\<close> is a \<open>File\<close>
  (\<open>Some\<close>) or is not. The response is a status and a JSON body.
\<close>

datatype ingest_request = BadForm thrown | Form "js_file option"

datatype ingest_body = IngestError jsstring | IngestDocumentId jsstring

type_synonym ingest_response = "nat \<times> ingest_body"

definition ingest_failed :: "thrown \<Rightarrow> ingest_response" where
  "ingest_failed err = (500, IngestError (error_message err))"

text \<open>The \<open>data\<close> of \<open>db.document.create\<close>; the store generates the identifier.\<close>

definition document_data :: "js_file \<Rightarrow> jsstring \<Rightarrow> discovered \<Rightarrow> document" where
  "document_data f redacted d =
     \<lparr>doc_id = [], doc_filename = file_name f, doc_text = redacted,
      doc_schema = d_schema d, doc_extracted = d_extracted d,
      doc_confidence = d_confidence d, doc_status = js ''REVIEW_REQUIRED''\<rparr>"

definition POST_ingest :: "ingest_env \<Rightarrow> ingest_request \<Rightarrow> db \<Rightarrow> ingest_response \<times> db" where
  "POST_ingest env req s =
     (case req of
        BadForm err \<Rightarrow> (ingest_failed err, s)
      | Form None \<Rightarrow> ((400, IngestError (js ''Missing file'')), s)
      | Form (Some f) \<Rightarrow>
          (case extractTextFromFile env f of
             Inl err \<Rightarrow> (ingest_failed err, s)
           | Inr rawText \<Rightarrow>
               (let cleanText = sanitizeForPostgresText rawText;
                    redacted = redactPII cleanText
                in case discoverSchemaAndExtract env redacted of
                     Inl err \<Rightarrow> (ingest_failed err, s)
                   | Inr d \<Rightarrow>
                       (case document_create (document_insert env)
                               (document_data f redacted d) s of
                          Inl err \<Rightarrow> (ingest_failed err, s)
                        | Inr (doc, s1) \<Rightarrow>
                            if length (trim redacted) \<ge> 20
                            then (case embedAndStore env (doc_id doc) redacted s1 of
                                    Inl err \<Rightarrow> (ingest_failed err, s1)
                                  | Inr s2 \<Rightarrow> ((200, IngestDocumentId (doc_id doc)), s2))
                            else ((200, IngestDocumentId (doc_id doc)), s1)))))"

section \<open>Concrete ingestion runs\<close>

text \<open>
  An environment in which every service works: ASCII files decode byte by byte, the
  completion service answers \<open>{}\<close>, the store generates the identifiers \<open>doc1\<close> and \<open>emb1\<close>,
  and the embedding service returns a vector of the store's 3072 dimensions.
\<close>

definition ascii_bytes :: "string \<Rightarrow> 8 word list" where
  "ascii_bytes s = map of_char s"

definition ascii_lower :: "jsstring \<Rightarrow> jsstring" where
  "ascii_lower s = map (\<lambda>c. if 0x0041 \<le> c \<and> c \<le> 0x005A then c + 0x0020 else c) s"

definition parse_braces :: "jsstring \<Rightarrow> thrown + json" where
  "parse_braces s =
     (if s = js ''{}'' then Inr (JObject [])
      else Inl (Error ''Unexpected token in JSON at position 0''))"

definition env_ok :: ingest_env where
  "env_ok =
     \<lparr>file_text = map ucast,
      pdf_extractText = (\<lambda>bs. Inl (Error ''Invalid PDF structure'')),
      toLowerCase = ascii_lower,
      discovery_completion = (\<lambda>u. Inr (Some (js ''{}''))),
      JSON_parse = parse_braces,
      document_insert = Inr (js ''doc1''),
      embeddings_create = (\<lambda>t. Inr (replicate 3072 (1 / 2))),
      embedding_insert = Inr (js ''emb1'')\<rparr>"

text \<open>The same, with the embedding service down.\<close>

definition env_embed_down :: ingest_env where
  "env_embed_down = env_ok\<lparr>embeddings_create := (\<lambda>t. Inl (Error ''429 Rate limit reached''))\<rparr>"

text \<open>The same, with a completion service that answers in prose.\<close>

definition env_prose :: ingest_env where
  "env_prose = env_ok\<lparr>discovery_completion := (\<lambda>u. Inr (Some (js ''Sorry, I cannot.'')))\<rparr>"

definition empty_db :: db where
  "empty_db = \<lparr>documents = [], embeddings = [], chatMessages = []\<rparr>"

text \<open>The example of the specification, and a short note padded with twenty spaces.\<close>

definition note_file :: js_file where
  "note_file =
     \<lparr>file_name = js ''note.txt'', file_type = js ''text/plain'',
      file_bytes = ascii_bytes ''John Doe, SSN 123-45-6789.''\<rparr>"

definition padded_file :: js_file where
  "padded_file =
     \<lparr>file_name = js ''pad.txt'', file_type = js ''text/plain'',
      file_bytes = ascii_bytes ''hello                    ''\<rparr>"

definition note_document :: document where
  "note_document =
     \<lparr>doc_id = js ''doc1'', doc_filename = js ''note.txt'',
      doc_text = js ''John Doe, SSN [REDACTED_SSN].'',
      doc_schema = JObject [], doc_extracted = JObject [], doc_confidence = JObject [],
      doc_status = js ''REVIEW_REQUIRED''\<rparr>"

definition padded_document :: document where
  "padded_document =
     \<lparr>doc_id = js ''doc1'', doc_filename = js ''pad.txt'',
      doc_text = js ''hello                    '',
      doc_schema = JObject [], doc_extracted = JObject [], doc_confidence = JObject [],
      doc_status = js ''REVIEW_REQUIRED''\<rparr>"

definition note_embedding :: embedding where
  "note_embedding =
     \<lparr>emb_id = js ''emb1'', emb_documentId = js ''doc1'', emb_vector = replicate 3072 (1 / 2)\<rparr>"

definition db_after_note :: db where
  "db_after_note =
     \<lparr>documents = [note_document], embeddings = [note_embedding], chatMessages = []\<rparr>"

section \<open>app/api/chat/route.ts: the two tools\<close>

text \<open>
  \<open>s.split(sep)\<close> for a separator of one code unit (it never returns the empty list),
  \<open>parts.join(sep)\<close>, and \<open>s.includes(q)\<close> (here \<open>js_includes\<close>).
\<close>

fun split_on :: "cu \<Rightarrow> jsstring \<Rightarrow> jsstring list" where
  "split_on sep [] = [[]]"
| "split_on sep (c # cs) =
     (if c = sep then [] # split_on sep cs
      else (case split_on sep cs of [] \<Rightarrow> [[c]] | l # ls \<Rightarrow> (c # l) # ls))"

fun join :: "jsstring \<Rightarrow> jsstring list \<Rightarrow> jsstring" where
  "join sep [] = []"
| "join sep [l] = l"
| "join sep (l # ls) = l @ sep @ join sep ls"

fun js_includes :: "jsstring \<Rightarrow> jsstring \<Rightarrow> bool" where
  "js_includes [] q = startsWith [] q"
| "js_includes (c # cs) q = (startsWith (c # cs) q \<or> js_includes cs q)"

text \<open>
  What the chat route reaches outside the repository. The store: whether \<open>findUnique\<close>
  and the nearest-neighbour query throw, the outcome of each insert into \<open>ChatMessage\<close>
  (given the row's data), and pgvector's distance operator \<open><->\<close>. The services: the
  embedding call (it throws or yields \<open>data[0].embedding\<close>) and the completion call (given
  the messages and whether \<open>tool_choice: "auto"\<close> is passed, it throws or yields
  \<open>choices[0].message\<close>). The runtime: \<open>JSON.parse\<close>, \<open>JSON.stringify\<close>, \<open>toLowerCase\<close>,
  and the names of the members of \<open>Object.prototype\<close> (other than \<open>__proto__\<close>) and of
  \<open>Array.prototype\<close> (other than \<open>length\<close>), all of them functions. The content of a tool
  message is \<open>None\<close> when it is \<open>undefined\<close>.
\<close>

record assistant_message =
  am_content :: "jsstring option"
  am_tool_calls :: "tool_call list option"

record client_message =
  cm_role :: jsstring
  cm_content :: jsstring

record tool_result =
  tr_tool_call_id :: jsstring
  tr_name :: jsstring
  tr_content :: "jsstring option"

datatype api_message =
    SystemMessage jsstring
  | ClientMessage client_message
  | AssistantMessage assistant_message
  | ToolMessage tool_result

record chat_env =
  find_outcome :: "thrown option"
  message_insert :: "chat_message \<Rightarrow> thrown + jsstring"
  query_embedding :: "jsstring \<Rightarrow> thrown + vector"
  nearest_outcome :: "thrown option"
  distance :: "vector \<Rightarrow> vector \<Rightarrow> real"
  chat_completion :: "api_message list \<Rightarrow> bool \<Rightarrow> thrown + assistant_message"
  parse_json :: "jsstring \<Rightarrow> thrown + json"
  stringify_json :: "json \<Rightarrow> jsstring"
  lower_case :: "jsstring \<Rightarrow> jsstring"
  object_prototype_keys :: "jsstring list"
  array_prototype_keys :: "jsstring list"

text \<open>\<open>JSON.parse(toolCall.function.arguments || "{}")\<close>\<close>

definition parse_arguments :: "chat_env \<Rightarrow> tool_call \<Rightarrow> thrown + json" where
  "parse_arguments env tc =
     parse_json env (if tc_arguments tc = [] then js ''{}'' else tc_arguments tc)"

text \<open>Truthiness of a member read from a parsed value (\<open>None\<close> is \<open>undefined\<close>).\<close>

fun truthy :: "json option \<Rightarrow> bool" where
  "truthy None = False"
| "truthy (Some JNull) = False"
| "truthy (Some (JBool b)) = b"
| "truthy (Some (JNumber r)) = (r \<noteq> 0)"
| "truthy (Some (JString s)) = (s \<noteq> [])"
| "truthy (Some (JArray xs)) = True"
| "truthy (Some (JObject kvs)) = True"

text \<open>
  The index that a property key names in an array: a canonical decimal numeral.
\<close>

definition index_of_key :: "jsstring \<Rightarrow> nat option" where
  "index_of_key k =
     (if k \<noteq> [] \<and> list_all is_digit k \<and> (length k = 1 \<or> hd k \<noteq> 0x0030)
      then Some (foldl (\<lambda>n c. 10 * n + (unat c - 48)) 0 k) else None)"

text \<open>
  The values that the loop over \<open>fieldPath\<close> can reach from \<open>document.extracted\<close>: the
  parsed values, and through inherited members the functions of the prototypes and the two
  prototype objects themselves.
\<close>

datatype jsvalue = Data json | FunctionObject | ObjectPrototype | ArrayPrototype

text \<open>\<open>current && typeof current === "object"\<close>\<close>

fun is_object :: "jsvalue \<Rightarrow> bool" where
  "is_object (Data (JObject kvs)) = True"
| "is_object (Data (JArray xs)) = True"
| "is_object ObjectPrototype = True"
| "is_object ArrayPrototype = True"
| "is_object v = False"

text \<open>
  The prototype of an object, which the accessor \<open>__proto__\<close> returns, and the prototype
  objects in which its inherited members are looked up, nearest first (for a prototype
  object, itself included). Only objects are asked for either.
\<close>

fun prototype_of :: "jsvalue \<Rightarrow> jsvalue" where
  "prototype_of (Data (JArray xs)) = ArrayPrototype"
| "prototype_of ArrayPrototype = ObjectPrototype"
| "prototype_of ObjectPrototype = Data JNull"
| "prototype_of v = ObjectPrototype"

fun prototype_chain :: "jsvalue \<Rightarrow> jsvalue list" where
  "prototype_chain (Data (JObject kvs)) = [ObjectPrototype]"
| "prototype_chain (Data (JArray xs)) = [ArrayPrototype, ObjectPrototype]"
| "prototype_chain ArrayPrototype = [ArrayPrototype, ObjectPrototype]"
| "prototype_chain ObjectPrototype = [ObjectPrototype]"
| "prototype_chain v = []"

text \<open>
  The own data members of a parsed value: the members of an object, the elements and the
  \<open>length\<close> of an array.
\<close>

fun own_member :: "json \<Rightarrow> jsstring \<Rightarrow> json option" where
  "own_member (JObject kvs) key = map_of kvs key"
| "own_member (JArray xs) key =
     (if key = js ''length'' then Some (JNumber (real (length xs)))
      else (case index_of_key key of
              None \<Rightarrow> None
            | Some i \<Rightarrow> nth_opt xs i))"
| "own_member v key = None"

text \<open>The own members of the two prototype objects, \<open>__proto__\<close> apart.\<close>

fun builtin_member :: "chat_env \<Rightarrow> jsvalue \<Rightarrow> jsstring \<Rightarrow> jsvalue option" where
  "builtin_member env ObjectPrototype key =
     (if key \<in> set (object_prototype_keys env) then Some FunctionObject else None)"
| "builtin_member env ArrayPrototype key =
     (if key = js ''length'' then Some (Data (JNumber 0))
      else if key \<in> set (array_prototype_keys env) then Some FunctionObject else None)"
| "builtin_member env v key = None"

text \<open>
  \<open>key in current\<close> followed by \<open>current[key]\<close>, for an object \<open>current\<close>: \<open>None\<close> when
  \<open>key in current\<close> is false, otherwise the member, own or inherited along the prototype
  chain. Every object has \<open>__proto__\<close>, through \<open>Object.prototype\<close>.
\<close>

definition member_in :: "chat_env \<Rightarrow> jsvalue \<Rightarrow> jsstring \<Rightarrow> jsvalue option" where
  "member_in env current key =
     (case (case current of Data v \<Rightarrow> own_member v key | _ \<Rightarrow> None) of
        Some v \<Rightarrow> Some (Data v)
      | None \<Rightarrow>
          if key = js ''__proto__'' then Some (prototype_of current)
          else (case List.map_filter (\<lambda>p. builtin_member env p key) (prototype_chain current) of
                  [] \<Rightarrow> None
                | m # ms \<Rightarrow> Some m))"

text \<open>
  The loop over \<open>fieldPath\<close>: a value that is not an object, or a key that is not in it,
  ends the loop with \<open>null\<close>.
\<close>

fun walk_path :: "chat_env \<Rightarrow> jsvalue \<Rightarrow> jsstring list \<Rightarrow> jsvalue" where
  "walk_path env current [] = current"
| "walk_path env current (key # keys) =
     (if is_object current
      then (case member_in env current key of
              None \<Rightarrow> Data JNull
            | Some v \<Rightarrow> walk_path env v keys)
      else Data JNull)"

text \<open>
  \<open>JSON.stringify(result)\<close>: \<open>undefined\<close> for a function, \<open>{}\<close> and \<open>[]\<close> for the two
  prototype objects, which have no enumerable members.
\<close>

fun stringify_value :: "chat_env \<Rightarrow> jsvalue \<Rightarrow> jsstring option" where
  "stringify_value env (Data v) = Some (stringify_json env v)"
| "stringify_value env FunctionObject = None"
| "stringify_value env ObjectPrototype = Some (js ''{}'')"
| "stringify_value env ArrayPrototype = Some (js ''[]'')"

definition tool_message :: "tool_call \<Rightarrow> jsstring option \<Rightarrow> tool_result" where
  "tool_message tc c = \<lparr>tr_tool_call_id = tc_id tc, tr_name = tc_name tc, tr_content = c\<rparr>"

text \<open>
  The branch for \<open>get_extracted_data\<close>. A truthy \<open>args.field\<close> that is not a string has no
  \<open>split\<close> method, and calling it throws.
\<close>

definition get_extracted_data :: "chat_env \<Rightarrow> document \<Rightarrow> tool_call \<Rightarrow> thrown + tool_result" where
  "get_extracted_data env document tc =
     (case parse_arguments env tc of
        Inl err \<Rightarrow> Inl err
      | Inr args \<Rightarrow>
          (case get_member args ''field'' of
             Inl err \<Rightarrow> Inl err
           | Inr field \<Rightarrow>
               if truthy field
               then (case field of
                       Some (JString f) \<Rightarrow>
                         Inr (tool_message tc (stringify_value env
                                (walk_path env (Data (doc_extracted document))
                                   (split_on 0x002E f))))
                     | _ \<Rightarrow> Inl (Error ''args.field.split is not a function''))
               else Inr (tool_message tc
                      (stringify_value env (Data (doc_extracted document))))))"

text \<open>
  The branch for \<open>search_document_text\<close>. \<open>args.query?.toLowerCase() || ""\<close> is the empty
  string for a missing or \<open>null\<close> query, the lower-cased query for a string, and throws for
  any other value, which has no \<open>toLowerCase\<close> method.
\<close>

definition search_query :: "chat_env \<Rightarrow> json option \<Rightarrow> thrown + jsstring" where
  "search_query env q =
     (case q of
        None \<Rightarrow> Inr []
      | Some JNull \<Rightarrow> Inr []
      | Some (JString s) \<Rightarrow> Inr (lower_case env s)
      | Some v \<Rightarrow> Inl (Error ''args.query?.toLowerCase is not a function''))"

definition search_document_text :: "chat_env \<Rightarrow> document \<Rightarrow> tool_call \<Rightarrow> thrown + tool_result" where
  "search_document_text env document tc =
     (case parse_arguments env tc of
        Inl err \<Rightarrow> Inl err
      | Inr args \<Rightarrow>
          (case get_member args ''query'' of
             Inl err \<Rightarrow> Inl err
           | Inr q \<Rightarrow>
               (case search_query env q of
                  Inl err \<Rightarrow> Inl err
                | Inr query \<Rightarrow>
                    (let lines = split_on 0x000A (doc_text document);
                         matchingLines =
                           join [0x000A]
                             (take 5 (filter (\<lambda>line. js_includes (lower_case env line) query) lines))
                     in Inr (tool_message tc
                          (Some (if matchingLines = [] then js ''No matching text found.''
                                 else matchingLines)))))))"

text \<open>
  One round of the loop over \<open>assistantMessage.tool_calls\<close>: a call of another type or of
  another name pushes nothing.
\<close>

definition run_tool :: "chat_env \<Rightarrow> document \<Rightarrow> tool_call \<Rightarrow> thrown + tool_result list" where
  "run_tool env document tc =
     (if tc_type tc = js ''function''
      then (if tc_name tc = js ''get_extracted_data''
            then map_sum id (\<lambda>r. [r]) (get_extracted_data env document tc)
            else if tc_name tc = js ''search_document_text''
            then map_sum id (\<lambda>r. [r]) (search_document_text env document tc)
            else Inr [])
      else Inr [])"

fun run_tools ::
  "chat_env \<Rightarrow> document \<Rightarrow> tool_result list \<Rightarrow> tool_call list \<Rightarrow> thrown + tool_result list" where
  "run_tools env document toolResults [] = Inr toolResults"
| "run_tools env document toolResults (tc # tcs) =
     (case run_tool env document tc of
        Inl err \<Rightarrow> Inl err
      | Inr rs \<Rightarrow> run_tools env document (toolResults @ rs) tcs)"

section \<open>app/api/chat/route.ts: the route\<close>

text \<open>
  \<open>db.document.findUnique\<close> and \<open>db.chatMessage.create\<close>. The insert follows the pattern
  of \<open>document_create\<close>; the foreign key rejects a row for a document that does not exist.
\<close>

definition findUnique :: "chat_env \<Rightarrow> jsstring \<Rightarrow> db \<Rightarrow> thrown + document option" where
  "findUnique env docId s =
     (case find_outcome env of
        Some err \<Rightarrow> Inl err
      | None \<Rightarrow> Inr (find (\<lambda>d. doc_id d = docId) (documents s)))"

definition chatMessage_create :: "chat_env \<Rightarrow> chat_message \<Rightarrow> db \<Rightarrow> thrown + db" where
  "chatMessage_create env m s =
     (case message_insert env m of
        Inl err \<Rightarrow> Inl err
      | Inr i \<Rightarrow>
          if i \<in> set (map msg_id (chatMessages s))
          then Inl (Error ''Unique constraint failed on the fields: (`id`)'')
          else if msg_documentId m \<notin> set (map doc_id (documents s))
          then Inl (Error ''Foreign key constraint violated: `ChatMessage_documentId_fkey`'')
          else Inr (s\<lparr>chatMessages := chatMessages s @ [m\<lparr>msg_id := i\<rparr>]\<rparr>))"

text \<open>
  The nearest-neighbour query: the embeddings joined with their documents, restricted to
  the document asked for, ordered by distance to the query vector, the first three.
\<close>

record nearest_row =
  row_id :: jsstring
  row_text :: jsstring
  row_extracted :: json
  row_schema :: json
  row_distance :: real

definition nearest_rows :: "chat_env \<Rightarrow> vector \<Rightarrow> jsstring \<Rightarrow> db \<Rightarrow> nearest_row list" where
  "nearest_rows env q docId s =
     take 3 (sort_key row_distance
       [\<lparr>row_id = doc_id d, row_text = doc_text d, row_extracted = doc_extracted d,
         row_schema = doc_schema d, row_distance = distance env (emb_vector e) q\<rparr>.
        e \<leftarrow> embeddings s, d \<leftarrow> documents s, doc_id d = emb_documentId e, doc_id d = docId])"

definition queryNearest ::
  "chat_env \<Rightarrow> vector \<Rightarrow> jsstring \<Rightarrow> db \<Rightarrow> thrown + nearest_row list" where
  "queryNearest env q docId s =
     (case nearest_outcome env of
        Some err \<Rightarrow> Inl err
      | None \<Rightarrow> Inr (nearest_rows env q docId s))"

text \<open>
  \<open>relevantDocs.length > 0 ? relevantDocs[0].text || document.text : document.text\<close>
\<close>

definition contextText :: "nearest_row list \<Rightarrow> document \<Rightarrow> jsstring" where
  "contextText relevantDocs document =
     (case relevantDocs of
        [] \<Rightarrow> doc_text document
      | r # rs \<Rightarrow> if row_text r = [] then doc_text document else row_text r)"

definition systemMessage :: "chat_env \<Rightarrow> jsstring \<Rightarrow> document \<Rightarrow> jsstring" where
  "systemMessage env ctx document =
     js ''You are a helpful assistant that answers questions about documents. '' @ [0x000A]
     @ js ''You have access to:'' @ [0x000A]
     @ js ''1. The document text: '' @ take 2000 ctx
     @ (if length ctx > 2000 then js ''...'' else []) @ [0x000A]
     @ js ''2. Extracted structured data: '' @ stringify_json env (doc_extracted document)
     @ [0x000A]
     @ js ''3. Document schema: '' @ stringify_json env (doc_schema document) @ [0x000A]
     @ [0x000A]
     @ js ''Use the available tools to get more specific information when needed. Answer questions based on the document content and extracted data.''
     @ [0x000A] @ [0x000A]
     @ js ''IMPORTANT: Always format your responses using Markdown. Use proper markdown syntax for:''
     @ [0x000A]
     @ js ''- Headers (# ## ###)'' @ [0x000A]
     @ js ''- Lists (- or *)'' @ [0x000A]
     @ js ''- Code blocks ('' @ [0x0060, 0x0060, 0x0060] @ js ''language)'' @ [0x000A]
     @ js ''- Bold (**text**) and italic (*text*)'' @ [0x000A]
     @ js ''- Code inline ('' @ [0x0060] @ js ''code'' @ [0x0060] @ js '')'' @ [0x000A]
     @ js ''- Links and other markdown features''"

text \<open>
  The request is its JSON body: reading it throws, or it has the members \<open>documentId\<close>
  and \<open>messages\<close> (\<open>None\<close> when missing, and for \<open>messages\<close> also when not an array). The
  route reads the role and the content of a message. The trace lists the calls that leave
  the process, in the order in which they are made, each with its argument.
\<close>

datatype chat_request = BadJson thrown | Body "jsstring option" "client_message list option"

datatype chat_body = ChatError jsstring | ChatAnswer assistant_message "tool_call list option"

type_synonym chat_response = "nat \<times> chat_body"

datatype event =
    FindDocument jsstring
  | CreateMessage chat_message
  | CreateEmbedding jsstring
  | QueryNearest vector jsstring
  | CreateCompletion "api_message list" bool

type_synonym chat_result = "chat_response \<times> db \<times> event list"

definition chat_failed :: "thrown \<Rightarrow> chat_response" where
  "chat_failed err = (500, ChatError (error_message err))"

definition message_data ::
  "jsstring \<Rightarrow> string \<Rightarrow> jsstring \<Rightarrow> tool_call list option \<Rightarrow> chat_message" where
  "message_data docId r c tcs =
     \<lparr>msg_id = [], msg_documentId = docId, msg_role = js r, msg_content = c,
      msg_toolCalls = tcs\<rparr>"

text \<open>\<open>message.content || ""\<close>\<close>

definition content_or_empty :: "assistant_message \<Rightarrow> jsstring" where
  "content_or_empty m = (case am_content m of None \<Rightarrow> [] | Some c \<Rightarrow> c)"

text \<open>
  The end of the turn without tool calls (lines 228 to 240): the assistant message is
  stored with \<open>toolCalls: null\<close> and returned.
\<close>

definition answer_directly ::
  "chat_env \<Rightarrow> jsstring \<Rightarrow> assistant_message \<Rightarrow> db \<Rightarrow> event list \<Rightarrow> chat_result" where
  "answer_directly env docId assistantMessage s tr =
     (let m = message_data docId ''assistant'' (content_or_empty assistantMessage) None;
          tr1 = tr @ [CreateMessage m]
      in case chatMessage_create env m s of
           Inl err \<Rightarrow> (chat_failed err, s, tr1)
         | Inr s1 \<Rightarrow> ((200, ChatAnswer assistantMessage None), s1, tr1))"

text \<open>
  The end of the turn with tool calls (lines 146 to 226): the tools run, the completion
  service is called once more, and its message is stored and returned with the tool calls
  of the first message.
\<close>

definition answer_with_tools ::
  "chat_env \<Rightarrow> jsstring \<Rightarrow> document \<Rightarrow> api_message list \<Rightarrow> assistant_message
     \<Rightarrow> tool_call list \<Rightarrow> db \<Rightarrow> event list \<Rightarrow> chat_result" where
  "answer_with_tools env docId document conversation assistantMessage calls s tr =
     (case run_tools env document [] calls of
        Inl err \<Rightarrow> (chat_failed err, s, tr)
      | Inr toolResults \<Rightarrow>
          (let final = conversation @ [AssistantMessage assistantMessage]
                         @ map ToolMessage toolResults;
               tr1 = tr @ [CreateCompletion final False]
           in case chat_completion env final False of
                Inl err \<Rightarrow> (chat_failed err, s, tr1)
              | Inr finalMessage \<Rightarrow>
                  (let m = message_data docId ''assistant'' (content_or_empty finalMessage)
                             (Some calls);
                       tr2 = tr1 @ [CreateMessage m]
                   in case chatMessage_create env m s of
                        Inl err \<Rightarrow> (chat_failed err, s, tr2)
                      | Inr s1 \<Rightarrow> ((200, ChatAnswer finalMessage (Some calls)), s1, tr2))))"

text \<open>
  The turn from the embedding of the query to the first completion (lines 52 to 143),
  after the user message is stored.
\<close>

definition retrieve_and_complete ::
  "chat_env \<Rightarrow> jsstring \<Rightarrow> document \<Rightarrow> client_message list \<Rightarrow> client_message \<Rightarrow> db
     \<Rightarrow> event list \<Rightarrow> chat_result" where
  "retrieve_and_complete env docId document msgs lastMessage s tr =
     (let tr1 = tr @ [CreateEmbedding (cm_content lastMessage)]
      in case query_embedding env (cm_content lastMessage) of
           Inl err \<Rightarrow> (chat_failed err, s, tr1)
         | Inr q \<Rightarrow>
             (let tr2 = tr1 @ [QueryNearest q docId]
              in case queryNearest env q docId s of
                   Inl err \<Rightarrow> (chat_failed err, s, tr2)
                 | Inr relevantDocs \<Rightarrow>
                     (let conversation =
                            SystemMessage
                              (systemMessage env (contextText relevantDocs document) document)
                            # map ClientMessage msgs;
                          tr3 = tr2 @ [CreateCompletion conversation True]
                      in case chat_completion env conversation True of
                           Inl err \<Rightarrow> (chat_failed err, s, tr3)
                         | Inr assistantMessage \<Rightarrow>
                             (case am_tool_calls assistantMessage of
                                None \<Rightarrow> answer_directly env docId assistantMessage s tr3
                              | Some [] \<Rightarrow> answer_directly env docId assistantMessage s tr3
                              | Some (tc # tcs) \<Rightarrow>
                                  answer_with_tools env docId document conversation
                                    assistantMessage (tc # tcs) s tr3))))"

definition POST_chat :: "chat_env \<Rightarrow> chat_request \<Rightarrow> db \<Rightarrow> chat_result" where
  "POST_chat env req s =
     (case req of
        BadJson err \<Rightarrow> (chat_failed err, s, [])
      | Body None messages \<Rightarrow> ((400, ChatError (js ''Missing documentId or messages'')), s, [])
      | Body (Some docId) None \<Rightarrow>
          ((400, ChatError (js ''Missing documentId or messages'')), s, [])
      | Body (Some docId) (Some msgs) \<Rightarrow>
          if docId = [] then ((400, ChatError (js ''Missing documentId or messages'')), s, [])
          else (case findUnique env docId s of
                  Inl err \<Rightarrow> (chat_failed err, s, [FindDocument docId])
                | Inr None \<Rightarrow>
                    ((404, ChatError (js ''Document not found'')), s, [FindDocument docId])
                | Inr (Some document) \<Rightarrow>
                    (case nth_opt msgs (length msgs - 1) of
                       None \<Rightarrow>
                         ((400, ChatError (js ''Last message must be from user'')), s,
                          [FindDocument docId])
                     | Some lastMessage \<Rightarrow>
                         if cm_role lastMessage \<noteq> js ''user''
                         then ((400, ChatError (js ''Last message must be from user'')), s,
                               [FindDocument docId])
                         else (let m = message_data docId ''user'' (cm_content lastMessage) None;
                                   tr = [FindDocument docId, CreateMessage m]
                               in case chatMessage_create env m s of
                                    Inl err \<Rightarrow> (chat_failed err, s, tr)
                                  | Inr s1 \<Rightarrow>
                                      retrieve_and_complete env docId document msgs lastMessage s1 tr))))"

text \<open>
  The kinds of calls in a trace. The calls to the embedding service, to the retrieval query
  and to the completion service are the service calls; with the document lookup they are
  the external calls other than the two inserts into \<open>ChatMessage\<close>.
\<close>

fun is_user_persist :: "event \<Rightarrow> bool" where
  "is_user_persist (CreateMessage m) = (msg_role m = js ''user'')"
| "is_user_persist e = False"

fun is_assistant_persist :: "event \<Rightarrow> bool" where
  "is_assistant_persist (CreateMessage m) = (msg_role m = js ''assistant'')"
| "is_assistant_persist e = False"

fun is_completion :: "event \<Rightarrow> bool" where
  "is_completion (CreateCompletion ms auto) = True"
| "is_completion e = False"

fun is_store_read :: "event \<Rightarrow> bool" where
  "is_store_read (FindDocument i) = True"
| "is_store_read (QueryNearest q i) = True"
| "is_store_read e = False"

fun is_service_call :: "event \<Rightarrow> bool" where
  "is_service_call (CreateEmbedding t) = True"
| "is_service_call (QueryNearest q i) = True"
| "is_service_call (CreateCompletion ms auto) = True"
| "is_service_call e = False"

text \<open>The position of a call in the turn, as the route is written.\<close>

fun phase :: "event \<Rightarrow> nat" where
  "phase (FindDocument i) = 0"
| "phase (CreateMessage m) = (if msg_role m = js ''user'' then 1 else 5)"
| "phase (CreateEmbedding t) = 2"
| "phase (QueryNearest q i) = 3"
| "phase (CreateCompletion ms auto) = 4"

text \<open>
  The tool calls that a completion message requests, and the conversation of the first
  completion call: the system message, then the messages of the request.
\<close>

definition requested_calls :: "assistant_message \<Rightarrow> tool_call list" where
  "requested_calls m = (case am_tool_calls m of None \<Rightarrow> [] | Some calls \<Rightarrow> calls)"

definition first_conversation ::
  "chat_env \<Rightarrow> vector \<Rightarrow> jsstring \<Rightarrow> document \<Rightarrow> client_message list \<Rightarrow> db \<Rightarrow> api_message list" where
  "first_conversation env q docId document msgs s =
     SystemMessage (systemMessage env (contextText (nearest_rows env q docId s) document) document)
       # map ClientMessage msgs"

text \<open>
  The two tools that the loop over the tool calls knows, and the calls of a turn up to the
  first completion call.
\<close>

definition is_known_tool :: "tool_call \<Rightarrow> bool" where
  "is_known_tool tc \<longleftrightarrow>
     tc_type tc = js ''function''
     \<and> (tc_name tc = js ''get_extracted_data'' \<or> tc_name tc = js ''search_document_text'')"

definition turn_calls ::
  "jsstring \<Rightarrow> client_message \<Rightarrow> vector \<Rightarrow> api_message list \<Rightarrow> event list" where
  "turn_calls docId lastMessage q conversation =
     [FindDocument docId,
      CreateMessage (message_data docId ''user'' (cm_content lastMessage) None),
      CreateEmbedding (cm_content lastMessage),
      QueryNearest q docId,
      CreateCompletion conversation True]"

section \<open>Concrete chat turns\<close>

text \<open>
  An environment in which the store and every service work: the store generates the
  identifiers \<open>msg1\<close> and \<open>msg2\<close>, the rows are ordered by the squared Euclidean
  distance (the order of the Euclidean distance of pgvector, without the square root), the
  completion service answers in one sentence and requests no tool, the prototypes have
  the members of ECMAScript 2023, and the rest of the runtime is right on the values that
  occur in the turns below (\<open>{}\<close> and \<open>null\<close>, ASCII text).
\<close>

definition l2_squared :: "vector \<Rightarrow> vector \<Rightarrow> real" where
  "l2_squared a b = sum_list (map (\<lambda>(x, y). (x - y) * (x - y)) (zip a b))"

definition stringify_small :: "json \<Rightarrow> jsstring" where
  "stringify_small v = (if v = JNull then js ''null'' else js ''{}'')"

definition plain_answer :: assistant_message where
  "plain_answer = \<lparr>am_content = Some (js ''The note is about John Doe.''), am_tool_calls = None\<rparr>"

definition chat_env_ok :: chat_env where
  "chat_env_ok =
     \<lparr>find_outcome = None,
      message_insert = (\<lambda>m. Inr (if msg_role m = js ''user'' then js ''msg1'' else js ''msg2'')),
      query_embedding = (\<lambda>t. Inr (replicate 3072 (1 / 4))),
      nearest_outcome = None,
      distance = l2_squared,
      chat_completion = (\<lambda>ms auto. Inr plain_answer),
      parse_json = parse_braces,
      stringify_json = stringify_small,
      lower_case = ascii_lower,
      object_prototype_keys =
        map js [''constructor'', ''__defineGetter__'', ''__defineSetter__'', ''hasOwnProperty'',
          ''__lookupGetter__'', ''__lookupSetter__'', ''isPrototypeOf'',
          ''propertyIsEnumerable'', ''toString'', ''valueOf'', ''toLocaleString''],
      array_prototype_keys =
        map js [''constructor'', ''at'', ''concat'', ''copyWithin'', ''fill'', ''find'',
          ''findIndex'', ''findLast'', ''findLastIndex'', ''lastIndexOf'', ''pop'', ''push'',
          ''reverse'', ''shift'', ''unshift'', ''slice'', ''sort'', ''splice'', ''includes'',
          ''indexOf'', ''join'', ''keys'', ''entries'', ''values'', ''forEach'', ''filter'',
          ''flat'', ''flatMap'', ''map'', ''every'', ''some'', ''reduce'', ''reduceRight'',
          ''toLocaleString'', ''toString'', ''toReversed'', ''toSorted'', ''toSpliced'',
          ''with'']\<rparr>"

text \<open>
  The same, with a completion service that first requests a text search without a query
  and a tool that the route does not know, and then answers.
\<close>

definition search_call :: tool_call where
  "search_call =
     \<lparr>tc_id = js ''call_1'', tc_type = js ''function'', tc_name = js ''search_document_text'',
      tc_arguments = js ''{}''\<rparr>"

definition unknown_call :: tool_call where
  "unknown_call =
     \<lparr>tc_id = js ''call_2'', tc_type = js ''function'', tc_name = js ''delete_document'',
      tc_arguments = js ''{}''\<rparr>"

definition tool_request :: assistant_message where
  "tool_request = \<lparr>am_content = None, am_tool_calls = Some [search_call, unknown_call]\<rparr>"

definition chat_env_tools :: chat_env where
  "chat_env_tools =
     chat_env_ok\<lparr>chat_completion :=
       (\<lambda>ms auto. if auto then Inr tool_request else Inr plain_answer)\<rparr>"

text \<open>One question about the note, asked of the store that holds the note.\<close>

definition question :: client_message where
  "question = \<lparr>cm_role = js ''user'', cm_content = js ''Who is this about?''\<rparr>"

definition question_request :: chat_request where
  "question_request = Body (Some (js ''doc1'')) (Some [question])"

definition question_row :: chat_message where
  "question_row =
     \<lparr>msg_id = js ''msg1'', msg_documentId = js ''doc1'', msg_role = js ''user'',
      msg_content = js ''Who is this about?'', msg_toolCalls = None\<rparr>"

definition answer_row :: "tool_call list option \<Rightarrow> chat_message" where
  "answer_row tcs =
     \<lparr>msg_id = js ''msg2'', msg_documentId = js ''doc1'', msg_role = js ''assistant'',
      msg_content = js ''The note is about John Doe.'', msg_toolCalls = tcs\<rparr>"

definition note_conversation :: "chat_env \<Rightarrow> api_message list" where
  "note_conversation env =
     [SystemMessage (systemMessage env (doc_text note_document) note_document),
      ClientMessage question]"

definition question_calls :: "chat_env \<Rightarrow> event list" where
  "question_calls env =
     turn_calls (js ''doc1'') question (replicate 3072 (1 / 4)) (note_conversation env)"

definition search_result :: tool_result where
  "search_result =
     \<lparr>tr_tool_call_id = js ''call_1'', tr_name = js ''search_document_text'',
      tr_content = Some (js ''John Doe, SSN [REDACTED_SSN].'')\<rparr>"

section \<open>The lines of a text\<close>

text \<open>
  The words of the contract of the text search, independent of \<open>split\<close> and \<open>join\<close>: a text
  has one line more than it has line feeds, and the text of its first \<open>n\<close> lines is the
  text up to its \<open>n\<close>-th line feed, which is left out, or the whole text when it has fewer
  line feeds.
\<close>

definition line_count :: "jsstring \<Rightarrow> nat" where
  "line_count t = Suc (length (filter (\<lambda>c. c = 0x000A) t))"

fun first_lines :: "nat \<Rightarrow> jsstring \<Rightarrow> jsstring" where
  "first_lines 0 t = []"
| "first_lines (Suc n) [] = []"
| "first_lines (Suc n) (c # cs) =
     (if c = 0x000A then (if n = 0 then [] else c # first_lines n cs)
      else c # first_lines (Suc n) cs)"

section \<open>More concrete runs\<close>

text \<open>
  An ingestion in which the completion service answers with a part of the target shape,
  \<open>{"extracted":{"doc_type":"resume"}}\<close>.
\<close>

definition partial_content :: jsstring where
  "partial_content =
     js ''{'' @ [0x0022] @ js ''extracted'' @ [0x0022] @ js '':{'' @ [0x0022] @ js ''doc_type''
       @ [0x0022] @ js '':'' @ [0x0022] @ js ''resume'' @ [0x0022] @ js ''}}''"

definition partial_extracted :: json where
  "partial_extracted = JObject [(js ''doc_type'', JString (js ''resume''))]"

definition parse_small :: "jsstring \<Rightarrow> thrown + json" where
  "parse_small s =
     (if s = js ''{}'' then Inr (JObject [])
      else if s = partial_content then Inr (JObject [(js ''extracted'', partial_extracted)])
      else Inl (Error ''Unexpected token in JSON at position 0''))"

definition env_partial :: ingest_env where
  "env_partial =
     env_ok\<lparr>discovery_completion := (\<lambda>u. Inr (Some partial_content)),
            JSON_parse := parse_small\<rparr>"

definition partial_document :: document where
  "partial_document = note_document\<lparr>doc_extracted := partial_extracted\<rparr>"

definition db_after_partial :: db where
  "db_after_partial =
     \<lparr>documents = [partial_document], embeddings = [note_embedding], chatMessages = []\<rparr>"

text \<open>
  A chat turn in which the completion service requests a text search with arguments that
  are not JSON.
\<close>

definition bad_call :: tool_call where
  "bad_call =
     \<lparr>tc_id = js ''call_1'', tc_type = js ''function'', tc_name = js ''search_document_text'',
      tc_arguments = js ''{''\<rparr>"

definition bad_request :: assistant_message where
  "bad_request = \<lparr>am_content = None, am_tool_calls = Some [bad_call]\<rparr>"

definition chat_env_bad :: chat_env where
  "chat_env_bad =
     chat_env_ok\<lparr>chat_completion :=
       (\<lambda>ms auto. if auto then Inr bad_request else Inr plain_answer)\<rparr>"





section \<open>Properties of the sanitizer\<close>

lemma replace_class_empty: "replace_class cls [] s = filter (\<lambda>c. \<not> cls c) s"
  by (induction s) (simp_all add: replace_class_def)

lemma stripped_classes_are_c0:
  "(is_nul c \<or> is_stripped_control c) = (is_c0_control c \<and> \<not> is_tab_lf_cr c)"
proof -
  have e: "\<And>k::cu. (c = k) = (unat c = unat k)"
    by (simp add: word_unat_eq_iff)
  show ?thesis
    unfolding is_nul_def is_stripped_control_def is_c0_control_def is_tab_lf_cr_def
      word_le_nat_alt e
    by simp arith
qed

lemma sanitize_as_filter:
  "sanitizeForPostgresText s = filter (\<lambda>c. \<not> (is_c0_control c \<and> \<not> is_tab_lf_cr c)) s"
proof -
  have "sanitizeForPostgresText s = filter (\<lambda>c. \<not> (is_nul c \<or> is_stripped_control c)) s"
    by (simp add: sanitizeForPostgresText_def replace_class_empty conj_commute)
  then show ?thesis
    by (simp add: stripped_classes_are_c0)
qed

text \<open>
  C4, as stated: the output of sanitization holds no control character other than tab, line
  feed and carriage return. It fails for DEL (U+007F), a control character that neither
  pattern of the sanitizer mentions: the one-character string DEL is returned unchanged.
\<close>

theorem C4_del_survives:
  "sanitizeForPostgresText [0x007F] = [0x007F] \<and> is_control 0x007F \<and> \<not> is_tab_lf_cr 0x007F"
  by (simp add: sanitizeForPostgresText_def replace_class_def is_nul_def
      is_stripped_control_def is_control_def is_tab_lf_cr_def)

text \<open>
  C4, amended: the output of sanitization is the input with exactly the C0 control
  characters (U+0000..U+001F, the null character among them) other than tab, line feed and
  carriage return deleted. So none of them is left in the output, and every other code unit
  of the input, DEL and the C1 controls included, is kept, in order.
\<close>

theorem C4_sanitize_removes_c0_controls:
  "sanitizeForPostgresText s = filter (\<lambda>c. \<not> (is_c0_control c \<and> \<not> is_tab_lf_cr c)) s
   \<and> \<not> (\<exists>c. c \<in> set (sanitizeForPostgresText s) \<and> is_nul c)
   \<and> \<not> (\<exists>c. c \<in> set (sanitizeForPostgresText s) \<and> is_c0_control c \<and> \<not> is_tab_lf_cr c)"
proof -
  have nul: "is_nul c \<Longrightarrow> is_c0_control c \<and> \<not> is_tab_lf_cr c" for c
    using stripped_classes_are_c0 [of c] by simp
  show ?thesis
    unfolding sanitize_as_filter using nul by auto
qed

theorem C4_sanitize_removes_c0_controls_witness:
  "sanitizeForPostgresText [0x0041, 0x0000, 0x0009, 0x001B, 0x007F, 0x000A, 0x0042]
     = [0x0041, 0x0009, 0x007F, 0x000A, 0x0042]"
  using C4_sanitize_removes_c0_controls [of "[0x0041, 0x0000, 0x0009, 0x001B, 0x007F, 0x000A, 0x0042]"]
  by (simp add: is_c0_control_def is_tab_lf_cr_def)


section \<open>The store and the steps of the pipeline\<close>

lemma length_trim_le: "length (trim s) \<le> length s"
proof -
  have "length (trim s) \<le> length (dropWhile is_js_space s)"
    using length_dropWhile_le [of is_js_space "rev (dropWhile is_js_space s)"]
    by (simp add: trim_def)
  also have "\<dots> \<le> length s"
    by (rule length_dropWhile_le)
  finally show ?thesis .
qed

lemma document_create_Inr:
  assumes "document_create outcome d s = Inr (doc, s1)"
  shows "documents s1 = documents s @ [doc] \<and> embeddings s1 = embeddings s
         \<and> chatMessages s1 = chatMessages s \<and> doc_id doc \<notin> set (map doc_id (documents s))
         \<and> doc = d\<lparr>doc_id := doc_id doc\<rparr>"
  using assms
  by (auto simp: document_create_def Let_def split: sum.splits if_splits)

lemma embedAndStore_Inr:
  assumes "embedAndStore env i txt s1 = Inr s2"
  shows "\<exists>e. embeddings s2 = embeddings s1 @ [e] \<and> emb_documentId e = i
             \<and> embeddings_create env txt = Inr (emb_vector e)
             \<and> documents s2 = documents s1 \<and> chatMessages s2 = chatMessages s1"
  using assms
  by (auto simp: embedAndStore_def split: sum.splits)

lemma trim_short: "length s < 20 \<Longrightarrow> length (trim s) < 20"
  using length_trim_le [of s] by simp

lemma embeddings_of_fresh:
  assumes "db_ok s" and "i \<notin> set (map doc_id (documents s))"
  shows "embeddings_of s i = []"
  using assms by (auto simp: db_ok_def embeddings_of_def list_all_iff filter_empty_conv)


lemma extracted_member_cases:
  assumes "get_member parsed ''extracted'' = Inr ext"
  shows "parsed \<noteq> JNull
       \<and> (\<forall>kvs v. parsed = JObject kvs \<and> map_of kvs (js ''extracted'') = Some v \<and> v \<noteq> JNull
             \<longrightarrow> or_empty_object ext = v)
       \<and> ((\<forall>kvs. parsed = JObject kvs
               \<longrightarrow> map_of kvs (js ''extracted'') = None
                   \<or> map_of kvs (js ''extracted'') = Some JNull)
             \<longrightarrow> or_empty_object ext = JObject [])"
proof -
  have v: "or_empty_object (Some v) = v" if "v \<noteq> JNull" for v
    using that by (cases v) simp_all
  show ?thesis
    using assms v by (cases parsed) auto
qed

section \<open>The concrete runs, step by step\<close>

lemmas char_classes =
  is_nul_def is_stripped_control_def is_digit_def is_word_char_def is_js_space_def

lemma extract_text_file:
  "startsWith (file_type f) (js ''text/'') \<Longrightarrow>
   extractTextFromFile env f = Inr (file_text env (file_bytes f))"
  by (simp add: extractTextFromFile_def)

lemma note_file_text:
  "startsWith (file_type note_file) (js ''text/'')
   \<and> map ucast (file_bytes note_file) = js ''John Doe, SSN 123-45-6789.''"
  by (simp add: note_file_def startsWith_def js_def ascii_bytes_def)

lemma padded_file_text:
  "startsWith (file_type padded_file) (js ''text/'')
   \<and> map ucast (file_bytes padded_file) = js ''hello                    ''"
  by (simp add: padded_file_def startsWith_def js_def ascii_bytes_def)

lemma sanitize_note:
  "sanitizeForPostgresText (js ''John Doe, SSN 123-45-6789.'') = js ''John Doe, SSN 123-45-6789.''"
  by (simp add: sanitizeForPostgresText_def replace_class_def js_def char_classes)

lemma redact_note:
  "redactPII (js ''John Doe, SSN 123-45-6789.'') = js ''John Doe, SSN [REDACTED_SSN].''"
  by code_simp

lemma trim_note: "length (trim (js ''John Doe, SSN [REDACTED_SSN].'')) = 29"
  by (simp add: trim_def js_def char_classes)

lemma sanitize_padded:
  "sanitizeForPostgresText (js ''hello                    '') = js ''hello                    ''"
  by (simp add: sanitizeForPostgresText_def replace_class_def js_def char_classes)

lemma redact_padded:
  "redactPII (js ''hello                    '') = js ''hello                    ''"
  by code_simp

lemma trim_padded:
  "length (js ''hello                    '') = 25
   \<and> length (trim (js ''hello                    '')) = 5"
  by (simp add: trim_def js_def char_classes)

lemma discover_braces:
  assumes "discovery_completion env = (\<lambda>u. Inr (Some (js ''{}'')))"
    and "JSON_parse env = parse_braces"
  shows "discoverSchemaAndExtract env t
     = Inr \<lparr>d_schema = JObject [], d_extracted = JObject [], d_confidence = JObject []\<rparr>"
  using assms by (simp add: discoverSchemaAndExtract_def parse_braces_def js_def)

lemma discover_prose:
  "discoverSchemaAndExtract env_prose t = Inl (Error ''Unexpected token in JSON at position 0'')"
  by (simp add: discoverSchemaAndExtract_def env_prose_def env_ok_def parse_braces_def js_def)

lemma create_first:
  "document_create (Inr (js ''doc1'')) d empty_db
     = Inr (d\<lparr>doc_id := js ''doc1''\<rparr>, empty_db\<lparr>documents := [d\<lparr>doc_id := js ''doc1''\<rparr>]\<rparr>)"
  by (simp add: document_create_def empty_db_def Let_def)

lemma run_embed_down:
  "POST_ingest env_embed_down (Form (Some note_file)) empty_db
     = ((500, IngestError (js ''429 Rate limit reached'')), empty_db\<lparr>documents := [note_document]\<rparr>)"
proof -
  have e: "extractTextFromFile env_embed_down note_file = Inr (js ''John Doe, SSN 123-45-6789.'')"
    using note_file_text by (simp add: extract_text_file env_embed_down_def env_ok_def)
  have d: "discoverSchemaAndExtract env_embed_down t
     = Inr \<lparr>d_schema = JObject [], d_extracted = JObject [], d_confidence = JObject []\<rparr>" for t
    by (rule discover_braces) (simp_all add: env_embed_down_def env_ok_def)
  have i: "document_insert env_embed_down = Inr (js ''doc1'')"
    by (simp add: env_embed_down_def env_ok_def)
  have m: "embedAndStore env_embed_down k t s = Inl (Error ''429 Rate limit reached'')" for k t s
    by (simp add: embedAndStore_def env_embed_down_def env_ok_def)
  have n: "file_name note_file = js ''note.txt''"
    by (simp add: note_file_def)
  show ?thesis
    by (simp add: POST_ingest_def e sanitize_note redact_note d i create_first trim_note m
        ingest_failed_def error_message_def Error_def document_data_def note_document_def n)
qed

lemma discovered_braces_ok:
  "discoverSchemaAndExtract env_ok t
     = Inr \<lparr>d_schema = JObject [], d_extracted = JObject [], d_confidence = JObject []\<rparr>"
  by (rule discover_braces) (simp_all add: env_ok_def)

lemma embed_ok:
  "embedAndStore env_ok k t s
     = Inr (s\<lparr>embeddings := embeddings s
              @ [\<lparr>emb_id = js ''emb1'', emb_documentId = k, emb_vector = replicate 3072 (1 / 2)\<rparr>]\<rparr>)"
  by (simp add: embedAndStore_def env_ok_def)

lemma extract_ok:
  "extractTextFromFile env_ok note_file = Inr (js ''John Doe, SSN 123-45-6789.'')
   \<and> extractTextFromFile env_ok padded_file = Inr (js ''hello                    '')"
  using note_file_text padded_file_text by (simp add: extract_text_file env_ok_def)

lemma note_data:
  "(document_data note_file (js ''John Doe, SSN [REDACTED_SSN].'')
      \<lparr>d_schema = JObject [], d_extracted = JObject [], d_confidence = JObject []\<rparr>)
      \<lparr>doc_id := js ''doc1''\<rparr> = note_document"
  by (simp add: document_data_def note_document_def note_file_def)

lemma padded_data:
  "(document_data padded_file (js ''hello                    '')
      \<lparr>d_schema = JObject [], d_extracted = JObject [], d_confidence = JObject []\<rparr>)
      \<lparr>doc_id := js ''doc1''\<rparr> = padded_document"
  by (simp add: document_data_def padded_document_def padded_file_def)

lemma doc_ids: "doc_id note_document = js ''doc1'' \<and> doc_id padded_document = js ''doc1''"
  by (simp add: note_document_def padded_document_def)

lemma run_ok:
  "POST_ingest env_ok (Form (Some note_file)) empty_db
     = ((200, IngestDocumentId (js ''doc1'')), db_after_note)"
proof -
  have i: "document_insert env_ok = Inr (js ''doc1'')"
    by (simp add: env_ok_def)
  have a: "db_after_note = empty_db\<lparr>documents := [note_document], embeddings := [note_embedding]\<rparr>"
    by (simp add: db_after_note_def empty_db_def)
  have b: "embeddings empty_db = []"
    by (simp add: empty_db_def)
  show ?thesis
    by (simp add: POST_ingest_def extract_ok sanitize_note redact_note discovered_braces_ok i
        create_first trim_note embed_ok note_data a b note_embedding_def doc_ids Let_def)
qed

lemma run_padded:
  "POST_ingest env_ok (Form (Some padded_file)) empty_db
     = ((200, IngestDocumentId (js ''doc1'')), empty_db\<lparr>documents := [padded_document]\<rparr>)"
proof -
  have i: "document_insert env_ok = Inr (js ''doc1'')"
    by (simp add: env_ok_def)
  show ?thesis
    by (simp add: POST_ingest_def extract_ok sanitize_padded redact_padded discovered_braces_ok i
        create_first trim_padded padded_data doc_ids Let_def)
qed

lemma run_prose:
  "POST_ingest env_prose (Form (Some note_file)) empty_db
     = ((500, IngestError (js ''Unexpected token in JSON at position 0'')), empty_db)"
proof -
  have e: "extractTextFromFile env_prose note_file = Inr (js ''John Doe, SSN 123-45-6789.'')"
    using note_file_text by (simp add: extract_text_file env_prose_def env_ok_def)
  show ?thesis
    by (simp add: POST_ingest_def e discover_prose ingest_failed_def error_message_def Error_def)
qed

lemma discovered_partial:
  "discoverSchemaAndExtract env_partial t
     = Inr \<lparr>d_schema = JObject [], d_extracted = partial_extracted, d_confidence = JObject []\<rparr>"
proof -
  have "partial_content \<noteq> []" and "partial_content \<noteq> js ''{}''"
    by (simp_all add: partial_content_def js_def)
  moreover have "or_empty_object (Some partial_extracted) = partial_extracted"
    by (simp add: partial_extracted_def)
  moreover have "js ''extracted'' \<noteq> js ''schema''" and "js ''extracted'' \<noteq> js ''confidence''"
    by (simp_all add: js_def)
  ultimately show ?thesis
    by (simp add: discoverSchemaAndExtract_def env_partial_def env_ok_def parse_small_def)
qed

lemma run_partial:
  "POST_ingest env_partial (Form (Some note_file)) empty_db
     = ((200, IngestDocumentId (js ''doc1'')), db_after_partial)"
proof -
  have e: "extractTextFromFile env_partial note_file = Inr (js ''John Doe, SSN 123-45-6789.'')"
    using note_file_text by (simp add: extract_text_file env_partial_def env_ok_def)
  have i: "document_insert env_partial = Inr (js ''doc1'')"
    by (simp add: env_partial_def env_ok_def)
  have m: "embedAndStore env_partial k t s
     = Inr (s\<lparr>embeddings := embeddings s
              @ [\<lparr>emb_id = js ''emb1'', emb_documentId = k, emb_vector = replicate 3072 (1 / 2)\<rparr>]\<rparr>)"
    for k t s
    by (simp add: embedAndStore_def env_partial_def env_ok_def)
  have d: "(document_data note_file (js ''John Doe, SSN [REDACTED_SSN].'')
      \<lparr>d_schema = JObject [], d_extracted = partial_extracted, d_confidence = JObject []\<rparr>)
      \<lparr>doc_id := js ''doc1''\<rparr> = partial_document"
    by (simp add: document_data_def partial_document_def note_document_def note_file_def)
  have a: "db_after_partial
      = empty_db\<lparr>documents := [partial_document], embeddings := [note_embedding]\<rparr>"
    by (simp add: db_after_partial_def empty_db_def)
  have b: "embeddings empty_db = []"
    by (simp add: empty_db_def)
  have c: "doc_id partial_document = js ''doc1''"
    by (simp add: partial_document_def note_document_def)
  show ?thesis
    by (simp add: POST_ingest_def e sanitize_note redact_note discovered_partial i
        create_first trim_note m d a b c note_embedding_def Let_def)
qed

lemma empty_db_ok: "db_ok empty_db"
  by (simp add: db_ok_def empty_db_def)

section \<open>Claims about the ingestion pipeline\<close>

text \<open>
  C1, as stated: when steps 1 to 4 succeed and the embedding step fails, the caller is told
  that the ingestion succeeded in degraded form and receives the document's identifier. It
  fails: with the embedding service down, the run on the example note stores the document
  row and answers with status 500 and the error's message, an answer that carries no
  identifier.
\<close>

theorem C1_embedding_failure_is_answered_500:
  "extractTextFromFile env_embed_down note_file = Inr (js ''John Doe, SSN 123-45-6789.'')
   \<and> discoverSchemaAndExtract env_embed_down (js ''John Doe, SSN [REDACTED_SSN].'')
       = Inr \<lparr>d_schema = JObject [], d_extracted = JObject [], d_confidence = JObject []\<rparr>
   \<and> POST_ingest env_embed_down (Form (Some note_file)) empty_db
       = ((500, IngestError (js ''429 Rate limit reached'')),
          empty_db\<lparr>documents := [note_document]\<rparr>)"
proof -
  have "extractTextFromFile env_embed_down note_file = Inr (js ''John Doe, SSN 123-45-6789.'')"
    using note_file_text by (simp add: extract_text_file env_embed_down_def env_ok_def)
  moreover have "discoverSchemaAndExtract env_embed_down (js ''John Doe, SSN [REDACTED_SSN].'')
       = Inr \<lparr>d_schema = JObject [], d_extracted = JObject [], d_confidence = JObject []\<rparr>"
    by (rule discover_braces) (simp_all add: env_embed_down_def env_ok_def)
  ultimately show ?thesis
    using run_embed_down by simp
qed

text \<open>
  C1, amended: in every ingestion run in which steps 1 to 4 and the insert of the Document
  row succeed and the embedding step then fails (the embedding service or the insert of the
  embedding row throws), the Document row stays persisted, no Embedding row is written, and
  the caller receives status 500 with the message of the error and no document identifier.
\<close>

theorem C1_embedding_failure_keeps_document_and_reports_error:
  assumes "extractTextFromFile env f = Inr rawText"
    and "redacted = redactPII (sanitizeForPostgresText rawText)"
    and "discoverSchemaAndExtract env redacted = Inr d"
    and "document_create (document_insert env) (document_data f redacted d) s = Inr (doc, s1)"
    and "20 \<le> length (trim redacted)"
    and "embedAndStore env (doc_id doc) redacted s1 = Inl err"
  shows "POST_ingest env (Form (Some f)) s = ((500, IngestError (error_message err)), s1)
         \<and> documents s1 = documents s @ [doc] \<and> embeddings s1 = embeddings s"
  using assms document_create_Inr [OF assms(4)]
  by (simp add: POST_ingest_def Let_def ingest_failed_def)


theorem C1_embedding_failure_keeps_document_and_reports_error_witness:
  "POST_ingest env_embed_down (Form (Some note_file)) empty_db
     = ((500, IngestError (error_message (Error ''429 Rate limit reached''))),
        empty_db\<lparr>documents := [note_document]\<rparr>)
   \<and> documents (empty_db\<lparr>documents := [note_document]\<rparr>) = documents empty_db @ [note_document]
   \<and> embeddings (empty_db\<lparr>documents := [note_document]\<rparr>) = embeddings empty_db"
proof (rule C1_embedding_failure_keeps_document_and_reports_error)
  show "extractTextFromFile env_embed_down note_file = Inr (js ''John Doe, SSN 123-45-6789.'')"
    using note_file_text by (simp add: extract_text_file env_embed_down_def env_ok_def)
  show "js ''John Doe, SSN [REDACTED_SSN].''
      = redactPII (sanitizeForPostgresText (js ''John Doe, SSN 123-45-6789.''))"
    by (simp add: sanitize_note redact_note)
  show "discoverSchemaAndExtract env_embed_down (js ''John Doe, SSN [REDACTED_SSN].'')
       = Inr \<lparr>d_schema = JObject [], d_extracted = JObject [], d_confidence = JObject []\<rparr>"
    by (rule discover_braces) (simp_all add: env_embed_down_def env_ok_def)
  show "document_create (document_insert env_embed_down)
      (document_data note_file (js ''John Doe, SSN [REDACTED_SSN].'')
        \<lparr>d_schema = JObject [], d_extracted = JObject [], d_confidence = JObject []\<rparr>) empty_db
      = Inr (note_document, empty_db\<lparr>documents := [note_document]\<rparr>)"
    by (simp add: env_embed_down_def env_ok_def create_first note_data)
  show "20 \<le> length (trim (js ''John Doe, SSN [REDACTED_SSN].''))"
    by (simp add: trim_note)
  show "embedAndStore env_embed_down (doc_id note_document) (js ''John Doe, SSN [REDACTED_SSN].'')
      (empty_db\<lparr>documents := [note_document]\<rparr>) = Inl (Error ''429 Rate limit reached'')"
    by (simp add: embedAndStore_def env_embed_down_def env_ok_def)
qed

text \<open>
  C2, as stated: a redacted text of 20 characters or more gets exactly one Embedding row.
  It fails: the route compares the length of the trimmed text. The note \<open>hello\<close> followed by
  twenty spaces is 25 characters long, is ingested with status 200 while every service
  works, and has no Embedding row.
\<close>

theorem C2_padded_text_gets_no_embedding:
  "POST_ingest env_ok (Form (Some padded_file)) empty_db
     = ((200, IngestDocumentId (js ''doc1'')), empty_db\<lparr>documents := [padded_document]\<rparr>)
   \<and> 20 \<le> length (doc_text padded_document)
   \<and> embeddings_of (empty_db\<lparr>documents := [padded_document]\<rparr>) (doc_id padded_document) = []"
  using run_padded trim_padded
  by (simp add: padded_document_def embeddings_of_def empty_db_def)

text \<open>
  C2, amended: in every ingestion run that creates the Document row, if the redacted text
  with leading and trailing white space trimmed is shorter than 20 characters (in
  particular if the redacted text itself is), the document has zero Embedding rows and the
  run succeeds; if the trimmed text has 20 characters or more and the embedding step
  succeeds, the document has exactly one Embedding row; if the embedding step fails it has
  none. The store is taken to satisfy its key constraints before the run.
\<close>

theorem C2_embedding_rows_by_trimmed_length:
  assumes "extractTextFromFile env f = Inr rawText"
    and "redacted = redactPII (sanitizeForPostgresText rawText)"
    and "discoverSchemaAndExtract env redacted = Inr d"
    and "document_create (document_insert env) (document_data f redacted d) s = Inr (doc, s1)"
    and "db_ok s"
    and "POST_ingest env (Form (Some f)) s = (resp, s')"
  shows "(length (trim redacted) < 20 \<longrightarrow>
            embeddings_of s' (doc_id doc) = [] \<and> resp = (200, IngestDocumentId (doc_id doc)))
       \<and> (length redacted < 20 \<longrightarrow> embeddings_of s' (doc_id doc) = [])
       \<and> (20 \<le> length (trim redacted)
            \<and> (\<exists>s2. embedAndStore env (doc_id doc) redacted s1 = Inr s2) \<longrightarrow>
            length (embeddings_of s' (doc_id doc)) = 1
            \<and> resp = (200, IngestDocumentId (doc_id doc)))
       \<and> (20 \<le> length (trim redacted)
            \<and> (\<exists>err. embedAndStore env (doc_id doc) redacted s1 = Inl err) \<longrightarrow>
            embeddings_of s' (doc_id doc) = [])"
proof -
  note c = document_create_Inr [OF assms(4)]
  have fresh: "embeddings_of s (doc_id doc) = []"
    using embeddings_of_fresh [OF assms(5)] c by simp
  then have s1: "embeddings_of s1 (doc_id doc) = []"
    using c by (simp add: embeddings_of_def)
  have run: "POST_ingest env (Form (Some f)) s =
      (if 20 \<le> length (trim redacted)
       then (case embedAndStore env (doc_id doc) redacted s1 of
               Inl err \<Rightarrow> (ingest_failed err, s1)
             | Inr s2 \<Rightarrow> ((200, IngestDocumentId (doc_id doc)), s2))
       else ((200, IngestDocumentId (doc_id doc)), s1))"
    using assms(1-4) by (simp add: POST_ingest_def Let_def)
  have short: "length (trim redacted) < 20 \<Longrightarrow>
      embeddings_of s' (doc_id doc) = [] \<and> resp = (200, IngestDocumentId (doc_id doc))"
    using run assms(6) s1 by auto
  have stored: "length (embeddings_of s' (doc_id doc)) = 1
      \<and> resp = (200, IngestDocumentId (doc_id doc))"
    if "20 \<le> length (trim redacted)" and "embedAndStore env (doc_id doc) redacted s1 = Inr s2"
    for s2
    using run assms(6) s1 that embedAndStore_Inr [OF that(2)]
    by (auto simp: embeddings_of_def)
  have failed: "embeddings_of s' (doc_id doc) = []"
    if "20 \<le> length (trim redacted)" and "embedAndStore env (doc_id doc) redacted s1 = Inl err"
    for err
    using run assms(6) s1 that by auto
  show ?thesis
    using short trim_short [of redacted] stored failed by blast
qed


theorem C2_embedding_rows_by_trimmed_length_witness:
  "length (embeddings_of db_after_note (doc_id note_document)) = 1
   \<and> embeddings_of (empty_db\<lparr>documents := [padded_document]\<rparr>) (doc_id padded_document) = []"
proof -
  have a: "js ''John Doe, SSN [REDACTED_SSN].''
      = redactPII (sanitizeForPostgresText (js ''John Doe, SSN 123-45-6789.''))"
    by (simp add: sanitize_note redact_note)
  have b: "document_create (document_insert env_ok)
      (document_data note_file (js ''John Doe, SSN [REDACTED_SSN].'')
        \<lparr>d_schema = JObject [], d_extracted = JObject [], d_confidence = JObject []\<rparr>) empty_db
      = Inr (note_document, empty_db\<lparr>documents := [note_document]\<rparr>)"
    by (simp add: env_ok_def create_first note_data)
  have c: "js ''hello                    ''
      = redactPII (sanitizeForPostgresText (js ''hello                    ''))"
    by (simp add: sanitize_padded redact_padded)
  have d: "document_create (document_insert env_ok)
      (document_data padded_file (js ''hello                    '')
        \<lparr>d_schema = JObject [], d_extracted = JObject [], d_confidence = JObject []\<rparr>) empty_db
      = Inr (padded_document, empty_db\<lparr>documents := [padded_document]\<rparr>)"
    by (simp add: env_ok_def create_first padded_data)
  have "length (embeddings_of db_after_note (doc_id note_document)) = 1"
    using C2_embedding_rows_by_trimmed_length
      [OF conjunct1 [OF extract_ok] a discovered_braces_ok b empty_db_ok run_ok]
    by (simp add: trim_note embed_ok doc_ids)
  moreover have
    "embeddings_of (empty_db\<lparr>documents := [padded_document]\<rparr>) (doc_id padded_document) = []"
    using C2_embedding_rows_by_trimmed_length
      [OF conjunct2 [OF extract_ok] c discovered_braces_ok d empty_db_ok run_padded]
    by (simp add: trim_padded doc_ids)
  ultimately show ?thesis by simp
qed

text \<open>
  C5: when text extraction throws, or schema discovery throws on the redacted text (steps
  2 and 3 are total functions and cannot fail), the route answers 500 with the error's
  message and the store is what it was before the request: no Document row and no
  Embedding row is written. Schema discovery throws in particular when the completion
  service returns no content or the empty string, and when its content is not JSON.
\<close>

theorem C5_failure_before_persistence_writes_nothing:
  "(extractTextFromFile env f = Inl err \<longrightarrow>
      POST_ingest env (Form (Some f)) s = ((500, IngestError (error_message err)), s))
   \<and> (extractTextFromFile env f = Inr rawText
        \<and> discoverSchemaAndExtract env (redactPII (sanitizeForPostgresText rawText)) = Inl err \<longrightarrow>
      POST_ingest env (Form (Some f)) s = ((500, IngestError (error_message err)), s))
   \<and> (discovery_completion env (discovery_input txt) = Inr None
        \<or> discovery_completion env (discovery_input txt) = Inr (Some []) \<longrightarrow>
      discoverSchemaAndExtract env txt = Inl (Error ''LLM returned empty response''))
   \<and> (discovery_completion env (discovery_input txt) = Inr (Some content) \<and> content \<noteq> []
        \<and> JSON_parse env content = Inl err \<longrightarrow>
      discoverSchemaAndExtract env txt = Inl err)"
  by (auto simp: POST_ingest_def Let_def ingest_failed_def discoverSchemaAndExtract_def)


theorem C5_failure_before_persistence_writes_nothing_witness:
  "POST_ingest env_prose (Form (Some note_file)) empty_db
     = ((500, IngestError (error_message (Error ''Unexpected token in JSON at position 0''))),
        empty_db)"
proof -
  have e: "extractTextFromFile env_prose note_file = Inr (js ''John Doe, SSN 123-45-6789.'')"
    using note_file_text by (simp add: extract_text_file env_prose_def env_ok_def)
  show ?thesis
    using C5_failure_before_persistence_writes_nothing
      [of env_prose note_file "Error ''Unexpected token in JSON at position 0''" empty_db
        "js ''John Doe, SSN 123-45-6789.''"]
      e discover_prose
    by simp
qed

text \<open>
  C7, as stated: the \<open>extracted\<close> object of every ingested Document has the list fields and
  the scalar fields of the target shape, whatever the completion service returns. It fails:
  when the service answers \<open>{}\<close>, the ingestion succeeds and the stored \<open>extracted\<close> object
  is \<open>{}\<close>, without the list field \<open>skills\<close> and without the scalar field \<open>summary\<close>.
\<close>

theorem C7_empty_extracted_object_is_stored:
  "POST_ingest env_ok (Form (Some note_file)) empty_db
     = ((200, IngestDocumentId (js ''doc1'')), db_after_note)
   \<and> documents db_after_note = [note_document]
   \<and> doc_extracted note_document = JObject []
   \<and> get_member (doc_extracted note_document) ''skills'' = Inr None
   \<and> get_member (doc_extracted note_document) ''summary'' = Inr None"
  using run_ok by (simp add: db_after_note_def note_document_def)

text \<open>
  C7, amended: every Document produced by a successful ingestion has as \<open>extracted\<close> the
  member \<open>extracted\<close> of the value parsed from the completion service's response, as it is,
  whatever fields it has, or the empty object when the parsed value has no such member or
  has \<open>null\<close> there.
\<close>

theorem C7_extracted_is_the_completion_member:
  assumes "POST_ingest env (Form (Some f)) s = ((200, IngestDocumentId i), s')"
  shows "\<exists>rawText content parsed doc.
           extractTextFromFile env f = Inr rawText
           \<and> discovery_completion env
                (discovery_input (redactPII (sanitizeForPostgresText rawText))) = Inr (Some content)
           \<and> JSON_parse env content = Inr parsed
           \<and> parsed \<noteq> JNull
           \<and> documents s' = documents s @ [doc]
           \<and> doc_id doc = i
           \<and> (\<forall>kvs v. parsed = JObject kvs \<and> map_of kvs (js ''extracted'') = Some v
                  \<and> v \<noteq> JNull \<longrightarrow> doc_extracted doc = v)
           \<and> ((\<forall>kvs. parsed = JObject kvs
                   \<longrightarrow> map_of kvs (js ''extracted'') = None
                       \<or> map_of kvs (js ''extracted'') = Some JNull)
                 \<longrightarrow> doc_extracted doc = JObject [])"
proof -
  from assms obtain rawText where raw: "extractTextFromFile env f = Inr rawText"
    by (auto simp: POST_ingest_def ingest_failed_def split: sum.splits)
  define redacted where "redacted = redactPII (sanitizeForPostgresText rawText)"
  from assms raw obtain d where d: "discoverSchemaAndExtract env redacted = Inr d"
    by (auto simp: POST_ingest_def ingest_failed_def Let_def redacted_def split: sum.splits)
  from assms raw d obtain doc s1 where
    cr: "document_create (document_insert env) (document_data f redacted d) s = Inr (doc, s1)"
    by (auto simp: POST_ingest_def ingest_failed_def Let_def redacted_def split: sum.splits)
  note c = document_create_Inr [OF cr]
  from d obtain content parsed ext where
    co: "discovery_completion env (discovery_input redacted) = Inr (Some content)"
    and pa: "JSON_parse env content = Inr parsed"
    and ex: "get_member parsed ''extracted'' = Inr ext"
    and de: "d_extracted d = or_empty_object ext"
    by (auto simp: discoverSchemaAndExtract_def split: sum.splits option.splits if_splits)
  have docs: "documents s' = documents s @ [doc] \<and> doc_id doc = i"
    using assms raw d cr c embedAndStore_Inr [of env "doc_id doc" redacted s1]
    by (auto simp: POST_ingest_def ingest_failed_def Let_def redacted_def
        split: sum.splits if_splits)
  have "doc_extracted doc = d_extracted d"
  proof -
    have "doc_extracted doc = doc_extracted ((document_data f redacted d)\<lparr>doc_id := doc_id doc\<rparr>)"
      using c by simp
    then show ?thesis by (simp add: document_data_def)
  qed
  then have de': "or_empty_object ext = doc_extracted doc"
    using de by simp
  have
    "parsed \<noteq> JNull
       \<and> (\<forall>kvs v. parsed = JObject kvs \<and> map_of kvs (js ''extracted'') = Some v \<and> v \<noteq> JNull
             \<longrightarrow> doc_extracted doc = v)
       \<and> ((\<forall>kvs. parsed = JObject kvs
               \<longrightarrow> map_of kvs (js ''extracted'') = None
                   \<or> map_of kvs (js ''extracted'') = Some JNull)
             \<longrightarrow> doc_extracted doc = JObject [])"
    using extracted_member_cases [OF ex] unfolding de' .
  with raw co pa docs show ?thesis
    unfolding redacted_def
    apply (rule_tac x = rawText in exI)
    apply (rule_tac x = content in exI)
    apply (rule_tac x = parsed in exI)
    apply (rule_tac x = doc in exI)
    apply (elim conjE)
    apply (intro conjI)
    apply assumption+
    done
qed

theorem C7_extracted_is_the_completion_member_witness:
  "(\<exists>doc. documents db_after_partial = documents empty_db @ [doc]
      \<and> doc_extracted doc = JObject [(js ''doc_type'', JString (js ''resume''))])
   \<and> (\<exists>doc. documents db_after_note = documents empty_db @ [doc]
      \<and> doc_extracted doc = JObject [])"
proof
  from C7_extracted_is_the_completion_member [OF run_partial]
  obtain rawText content parsed doc where
    co: "discovery_completion env_partial
          (discovery_input (redactPII (sanitizeForPostgresText rawText))) = Inr (Some content)"
    and pa: "JSON_parse env_partial content = Inr parsed"
    and docs: "documents db_after_partial = documents empty_db @ [doc]"
    and unchanged: "\<forall>kvs v. parsed = JObject kvs \<and> map_of kvs (js ''extracted'') = Some v
                  \<and> v \<noteq> JNull \<longrightarrow> doc_extracted doc = v"
    by blast
  from co have "content = partial_content"
    by (simp add: env_partial_def env_ok_def)
  with pa have "parsed = JObject [(js ''extracted'', partial_extracted)]"
    by (simp add: env_partial_def env_ok_def parse_small_def partial_content_def js_def)
  with unchanged have "doc_extracted doc = partial_extracted"
    by (simp add: partial_extracted_def)
  with docs show "\<exists>doc. documents db_after_partial = documents empty_db @ [doc]
      \<and> doc_extracted doc = JObject [(js ''doc_type'', JString (js ''resume''))]"
    by (auto simp: partial_extracted_def)
next
  from C7_extracted_is_the_completion_member [OF run_ok]
  obtain rawText content parsed doc where
    co: "discovery_completion env_ok
          (discovery_input (redactPII (sanitizeForPostgresText rawText))) = Inr (Some content)"
    and pa: "JSON_parse env_ok content = Inr parsed"
    and docs: "documents db_after_note = documents empty_db @ [doc]"
    and missing: "(\<forall>kvs. parsed = JObject kvs
                   \<longrightarrow> map_of kvs (js ''extracted'') = None
                       \<or> map_of kvs (js ''extracted'') = Some JNull)
                 \<longrightarrow> doc_extracted doc = JObject []"
    by blast
  from co have "content = js ''{}''"
    by (simp add: env_ok_def)
  with pa have "parsed = JObject []"
    by (simp add: env_ok_def parse_braces_def)
  with missing have "doc_extracted doc = JObject []"
    by simp
  with docs show "\<exists>doc. documents db_after_note = documents empty_db @ [doc]
      \<and> doc_extracted doc = JObject []"
    by auto
qed

section \<open>The order of the calls of a chat turn\<close>

lemma roles_differ: "js ''assistant'' \<noteq> js ''user''"
  by (simp add: js_def)

lemma answer_directly_phases:
  "answer_directly env docId am s tr = (resp, s', tr') \<Longrightarrow> map phase tr' = map phase tr @ [5]"
  by (auto simp: answer_directly_def Let_def message_data_def roles_differ split: sum.splits)

lemma answer_with_tools_phases:
  "answer_with_tools env docId document conv am calls s tr = (resp, s', tr') \<Longrightarrow>
   map phase tr' \<in> {map phase tr, map phase tr @ [4], map phase tr @ [4, 5]}"
  by (auto simp: answer_with_tools_def Let_def message_data_def roles_differ split: sum.splits)

lemma retrieve_and_complete_phases:
  "retrieve_and_complete env docId document msgs lastMessage s tr = (resp, s', tr') \<Longrightarrow>
   map phase tr' \<in> {map phase tr @ [2], map phase tr @ [2, 3], map phase tr @ [2, 3, 4],
     map phase tr @ [2, 3, 4, 5], map phase tr @ [2, 3, 4, 4], map phase tr @ [2, 3, 4, 4, 5]}"
  by (auto simp: retrieve_and_complete_def Let_def split: sum.splits option.splits list.splits
      dest!: answer_directly_phases answer_with_tools_phases)

lemma POST_chat_phases:
  "POST_chat env req s = (resp, s', tr) \<Longrightarrow>
   map phase tr \<in> {[], [0], [0, 1], [0, 1, 2], [0, 1, 2, 3], [0, 1, 2, 3, 4],
     [0, 1, 2, 3, 4, 5], [0, 1, 2, 3, 4, 4], [0, 1, 2, 3, 4, 4, 5]}"
  by (auto simp: POST_chat_def Let_def message_data_def
      split: chat_request.splits sum.splits option.splits if_splits
      dest!: retrieve_and_complete_phases)

lemma phase_kinds:
  "is_user_persist e = (phase e = 1)"
  "is_assistant_persist e \<Longrightarrow> phase e = 5"
  "is_completion e = (phase e = 4)"
  "is_service_call e = (phase e \<in> {2, 3, 4})"
  "(\<exists>i. e = FindDocument i) = (phase e = 0)"
  by (cases e; simp add: roles_differ)+


lemma shape_service:
  assumes "p \<in> {[], [0], [0, 1], [0, 1, 2], [0, 1, 2, 3], [0, 1, 2, 3, 4],
     [0, 1, 2, 3, 4, 5], [0, 1, 2, 3, 4, 4], [0, 1, 2, 3, 4, 4, 5::nat]}"
    and "i < length p"
  shows "(p ! i \<in> {2, 3, 4} \<longrightarrow> (\<exists>j<i. p ! j = 1))
       \<and> (p ! i = 1 \<longrightarrow> i = 1 \<and> p ! 0 = 0)
       \<and> (p ! i = 5 \<longrightarrow> Suc i = length p \<and> (\<exists>j<i. p ! j = 4)
             \<and> (\<forall>j<length p. p ! j = 4 \<longrightarrow> j < i))"
proof -
  have one: "\<exists>j<i. ([0, 1] @ q) ! j = (1::nat)" if "2 \<le> i" for q
    using that by (intro exI [of _ 1]) simp
  show ?thesis
    using assms
    apply (elim insertE emptyE)
    apply (simp_all add: nth_Cons' less_Suc_eq numeral_eq_Suc)
    apply (auto simp add: nth_Cons' less_Suc_eq numeral_eq_Suc)
    done
qed

text \<open>
  C3, amended: within every chat turn, the lookup of the document, a read of the store, is
  the one call made before the user message is persisted; persisting the user message
  strictly precedes the embedding call, the retrieval query and every completion call; and
  persisting the assistant message is the last call of the turn, strictly after the final
  completion call.
\<close>

theorem C3_user_persist_before_service_calls:
  assumes "POST_chat env req s = (resp, s', tr)" and "i < length tr"
  shows "(is_service_call (tr ! i) \<longrightarrow> (\<exists>j<i. is_user_persist (tr ! j)))
       \<and> (is_user_persist (tr ! i) \<longrightarrow> i = 1 \<and> (\<exists>docId. tr ! 0 = FindDocument docId))
       \<and> (is_assistant_persist (tr ! i) \<longrightarrow>
             Suc i = length tr \<and> (\<exists>j<i. is_completion (tr ! j))
             \<and> (\<forall>j<length tr. is_completion (tr ! j) \<longrightarrow> j < i))"
proof -
  define p where "p = map phase tr"
  have len: "length p = length tr" and nth: "\<And>k. k < length tr \<Longrightarrow> p ! k = phase (tr ! k)"
    by (simp_all add: p_def)
  have "p \<in> {[], [0], [0, 1], [0, 1, 2], [0, 1, 2, 3], [0, 1, 2, 3, 4],
     [0, 1, 2, 3, 4, 5], [0, 1, 2, 3, 4, 4], [0, 1, 2, 3, 4, 4, 5]}"
    unfolding p_def using assms(1) by (rule POST_chat_phases)
  note sh = shape_service [OF this, of i, unfolded len, OF assms(2)]
  have a: "is_service_call (tr ! i) \<longrightarrow> (\<exists>j<i. is_user_persist (tr ! j))"
  proof
    assume "is_service_call (tr ! i)"
    then have "p ! i \<in> {2, 3, 4}"
      using nth [OF assms(2)] by (simp add: phase_kinds)
    with sh obtain j where "j < i" "p ! j = 1" by blast
    then show "\<exists>j<i. is_user_persist (tr ! j)"
      using nth [of j] assms(2) by (auto simp: phase_kinds)
  qed
  have b: "is_user_persist (tr ! i) \<longrightarrow> i = 1 \<and> (\<exists>docId. tr ! 0 = FindDocument docId)"
  proof
    assume "is_user_persist (tr ! i)"
    then have "p ! i = 1"
      using nth [OF assms(2)] by (simp add: phase_kinds)
    with sh have "i = 1" "p ! 0 = 0" by simp_all
    moreover have "0 < length tr" using assms(2) by (cases tr) simp_all
    ultimately show "i = 1 \<and> (\<exists>docId. tr ! 0 = FindDocument docId)"
      using nth [of 0] by (simp add: phase_kinds)
  qed
  have c: "is_assistant_persist (tr ! i) \<longrightarrow>
             Suc i = length tr \<and> (\<exists>j<i. is_completion (tr ! j))
             \<and> (\<forall>j<length tr. is_completion (tr ! j) \<longrightarrow> j < i)"
  proof
    assume "is_assistant_persist (tr ! i)"
    then have "p ! i = 5"
      using nth [OF assms(2)] by (simp add: phase_kinds)
    with sh have l: "Suc i = length tr" and e: "\<exists>j<i. p ! j = 4"
      and f: "\<forall>j<length tr. p ! j = 4 \<longrightarrow> j < i"
      by simp_all
    from e obtain j where "j < i" "p ! j = 4" by blast
    then have "\<exists>j<i. is_completion (tr ! j)"
      using nth [of j] assms(2) by (auto simp: phase_kinds)
    moreover have "\<forall>j<length tr. is_completion (tr ! j) \<longrightarrow> j < i"
      using f nth by (simp add: phase_kinds)
    ultimately show "Suc i = length tr \<and> (\<exists>j<i. is_completion (tr ! j))
             \<and> (\<forall>j<length tr. is_completion (tr ! j) \<longrightarrow> j < i)"
      using l by simp
  qed
  show ?thesis using a b c by simp
qed

section \<open>Turns that succeed\<close>

lemma chatMessage_create_Inr:
  assumes "chatMessage_create env m s = Inr s1"
  shows "\<exists>i. chatMessages s1 = chatMessages s @ [m\<lparr>msg_id := i\<rparr>]"
    and "documents s1 = documents s" and "embeddings s1 = embeddings s"
  using assms by (auto simp: chatMessage_create_def split: sum.splits if_splits)

lemma chat_failed_500: "fst (chat_failed err) = 500"
  by (simp add: chat_failed_def)

lemma answer_directly_200:
  assumes "answer_directly env docId am s tr = ((200, body), s', tr')"
  shows "body = ChatAnswer am None
       \<and> tr' = tr @ [CreateMessage (message_data docId ''assistant'' (content_or_empty am) None)]
       \<and> chatMessage_create env (message_data docId ''assistant'' (content_or_empty am) None) s
           = Inr s'"
  using assms
  by (auto simp: answer_directly_def Let_def chat_failed_def split: sum.splits)

lemma answer_with_tools_200:
  assumes "answer_with_tools env docId document conv am calls s tr = ((200, body), s', tr')"
  shows "\<exists>toolResults finalMessage.
           run_tools env document [] calls = Inr toolResults
         \<and> chat_completion env (conv @ [AssistantMessage am] @ map ToolMessage toolResults) False
             = Inr finalMessage
         \<and> body = ChatAnswer finalMessage (Some calls)
         \<and> tr' = tr @ [CreateCompletion (conv @ [AssistantMessage am] @ map ToolMessage toolResults)
                         False,
                       CreateMessage (message_data docId ''assistant''
                         (content_or_empty finalMessage) (Some calls))]
         \<and> chatMessage_create env
             (message_data docId ''assistant'' (content_or_empty finalMessage) (Some calls)) s
             = Inr s'"
  using assms
  by (auto simp: answer_with_tools_def Let_def chat_failed_def split: sum.splits)

lemma requested_calls_cases:
  "requested_calls m = [] \<longleftrightarrow> am_tool_calls m = None \<or> am_tool_calls m = Some []"
  "requested_calls m \<noteq> [] \<Longrightarrow> am_tool_calls m = Some (requested_calls m)"
  by (auto simp: requested_calls_def split: option.splits)

lemma retrieve_and_complete_200:
  assumes "retrieve_and_complete env docId document msgs lastMessage s tr = ((200, body), s', tr')"
  shows "\<exists>q first.
           query_embedding env (cm_content lastMessage) = Inr q
         \<and> nearest_outcome env = None
         \<and> chat_completion env (first_conversation env q docId document msgs s) True = Inr first
         \<and> (if requested_calls first = []
             then answer_directly env docId first s
                    (tr @ [CreateEmbedding (cm_content lastMessage), QueryNearest q docId,
                           CreateCompletion (first_conversation env q docId document msgs s) True])
             else answer_with_tools env docId document
                    (first_conversation env q docId document msgs s) first (requested_calls first) s
                    (tr @ [CreateEmbedding (cm_content lastMessage), QueryNearest q docId,
                           CreateCompletion (first_conversation env q docId document msgs s) True]))
           = ((200, body), s', tr')"
  using assms
  by (auto simp: retrieve_and_complete_def Let_def chat_failed_def first_conversation_def queryNearest_def
      requested_calls_def
      split: sum.splits option.splits list.splits)

lemma POST_chat_200:
  assumes "POST_chat env req s = ((200, body), s', tr)"
  shows "\<exists>docId msgs document lastMessage s1.
           req = Body (Some docId) (Some msgs)
         \<and> find (\<lambda>d. doc_id d = docId) (documents s) = Some document
         \<and> nth_opt msgs (length msgs - 1) = Some lastMessage
         \<and> cm_role lastMessage = js ''user''
         \<and> chatMessage_create env (message_data docId ''user'' (cm_content lastMessage) None) s
             = Inr s1
         \<and> retrieve_and_complete env docId document msgs lastMessage s1
              [FindDocument docId,
               CreateMessage (message_data docId ''user'' (cm_content lastMessage) None)]
             = ((200, body), s', tr)"
  using assms
  by (auto simp: POST_chat_def Let_def chat_failed_def findUnique_def
      split: chat_request.splits sum.splits option.splits if_splits)


lemma successful_turn:
  assumes "POST_chat env req s = ((200, body), s', tr)"
  shows "\<exists>docId msgs document lastMessage s1 q first.
           req = Body (Some docId) (Some msgs)
         \<and> find (\<lambda>d. doc_id d = docId) (documents s) = Some document
         \<and> chatMessage_create env (message_data docId ''user'' (cm_content lastMessage) None) s
             = Inr s1
         \<and> chat_completion env (first_conversation env q docId document msgs s1) True = Inr first
         \<and> (requested_calls first = [] \<longrightarrow>
               tr = turn_calls docId lastMessage q (first_conversation env q docId document msgs s1)
                      @ [CreateMessage
                           (message_data docId ''assistant'' (content_or_empty first) None)]
             \<and> body = ChatAnswer first None
             \<and> chatMessage_create env
                  (message_data docId ''assistant'' (content_or_empty first) None) s1 = Inr s')
         \<and> (requested_calls first \<noteq> [] \<longrightarrow>
               (\<exists>toolResults finalMessage.
                  run_tools env document [] (requested_calls first) = Inr toolResults
                \<and> chat_completion env
                     (first_conversation env q docId document msgs s1 @ [AssistantMessage first]
                        @ map ToolMessage toolResults) False = Inr finalMessage
                \<and> tr = turn_calls docId lastMessage q
                          (first_conversation env q docId document msgs s1)
                        @ [CreateCompletion
                             (first_conversation env q docId document msgs s1
                                @ [AssistantMessage first] @ map ToolMessage toolResults) False,
                           CreateMessage
                             (message_data docId ''assistant'' (content_or_empty finalMessage)
                                (Some (requested_calls first)))]
                \<and> body = ChatAnswer finalMessage (Some (requested_calls first))
                \<and> chatMessage_create env
                     (message_data docId ''assistant'' (content_or_empty finalMessage)
                        (Some (requested_calls first))) s1 = Inr s'))"
proof -
  from POST_chat_200 [OF assms] obtain docId msgs document lastMessage s1 where
    req: "req = Body (Some docId) (Some msgs)"
    and doc: "find (\<lambda>d. doc_id d = docId) (documents s) = Some document"
    and usr: "chatMessage_create env (message_data docId ''user'' (cm_content lastMessage) None) s
             = Inr s1"
    and com: "retrieve_and_complete env docId document msgs lastMessage s1
              [FindDocument docId,
               CreateMessage (message_data docId ''user'' (cm_content lastMessage) None)]
             = ((200, body), s', tr)"
    by blast
  from retrieve_and_complete_200 [OF com] obtain q first where
    fst: "chat_completion env (first_conversation env q docId document msgs s1) True = Inr first"
    and ans: "(if requested_calls first = []
             then answer_directly env docId first s1
                    ([FindDocument docId,
                      CreateMessage (message_data docId ''user'' (cm_content lastMessage) None)]
                     @ [CreateEmbedding (cm_content lastMessage), QueryNearest q docId,
                           CreateCompletion (first_conversation env q docId document msgs s1) True])
             else answer_with_tools env docId document
                    (first_conversation env q docId document msgs s1) first (requested_calls first) s1
                    ([FindDocument docId,
                      CreateMessage (message_data docId ''user'' (cm_content lastMessage) None)]
                     @ [CreateEmbedding (cm_content lastMessage), QueryNearest q docId,
                           CreateCompletion (first_conversation env q docId document msgs s1) True]))
           = ((200, body), s', tr)"
    by blast
  have direct: "tr = turn_calls docId lastMessage q (first_conversation env q docId document msgs s1)
                      @ [CreateMessage
                           (message_data docId ''assistant'' (content_or_empty first) None)]
             \<and> body = ChatAnswer first None
             \<and> chatMessage_create env
                  (message_data docId ''assistant'' (content_or_empty first) None) s1 = Inr s'"
    if "requested_calls first = []"
  proof -
    from ans that have "answer_directly env docId first s1
        (turn_calls docId lastMessage q (first_conversation env q docId document msgs s1))
        = ((200, body), s', tr)"
      by (simp add: turn_calls_def)
    from answer_directly_200 [OF this] show ?thesis by simp
  qed
  have tools: "\<exists>toolResults finalMessage.
                  run_tools env document [] (requested_calls first) = Inr toolResults
                \<and> chat_completion env
                     (first_conversation env q docId document msgs s1 @ [AssistantMessage first]
                        @ map ToolMessage toolResults) False = Inr finalMessage
                \<and> tr = turn_calls docId lastMessage q
                          (first_conversation env q docId document msgs s1)
                        @ [CreateCompletion
                             (first_conversation env q docId document msgs s1
                                @ [AssistantMessage first] @ map ToolMessage toolResults) False,
                           CreateMessage
                             (message_data docId ''assistant'' (content_or_empty finalMessage)
                                (Some (requested_calls first)))]
                \<and> body = ChatAnswer finalMessage (Some (requested_calls first))
                \<and> chatMessage_create env
                     (message_data docId ''assistant'' (content_or_empty finalMessage)
                        (Some (requested_calls first))) s1 = Inr s'"
    if "requested_calls first \<noteq> []"
  proof -
    from ans that have "answer_with_tools env docId document
        (first_conversation env q docId document msgs s1) first (requested_calls first) s1
        (turn_calls docId lastMessage q (first_conversation env q docId document msgs s1))
        = ((200, body), s', tr)"
      by (simp add: turn_calls_def)
    from answer_with_tools_200 [OF this] show ?thesis by blast
  qed
  show ?thesis
    using req doc usr fst direct tools by blast
qed


lemma completions_bounded:
  assumes "POST_chat env req s = (resp, s', tr)"
  shows "length (filter is_completion tr) \<le> 2"
proof -
  have "is_completion = (\<lambda>e. phase e = 4)"
    by (rule ext) (simp add: phase_kinds)
  then have "length (filter is_completion tr) = length (filter (\<lambda>n. n = 4) (map phase tr))"
    by (simp add: filter_map comp_def)
  also have "\<dots> \<le> 2"
    using POST_chat_phases [OF assms] by auto
  finally show ?thesis .
qed

lemma completions_of_turn_calls:
  "filter is_completion (turn_calls docId lastMessage q conversation)
     = [CreateCompletion conversation True]"
  by (simp add: turn_calls_def)

lemma message_data_fields:
  "msg_role ((message_data docId r c tcs)\<lparr>msg_id := i\<rparr>) = js r"
  "msg_content ((message_data docId r c tcs)\<lparr>msg_id := i\<rparr>) = c"
  "msg_toolCalls ((message_data docId r c tcs)\<lparr>msg_id := i\<rparr>) = tcs"
  "msg_documentId ((message_data docId r c tcs)\<lparr>msg_id := i\<rparr>) = docId"
  by (simp_all add: message_data_def)

lemma answer_directly_rows:
  assumes "answer_directly env docId am s tr = (resp, s', tr')" and "fst resp \<noteq> 200"
  shows "s' = s"
  using assms by (auto simp: answer_directly_def Let_def split: sum.splits)

lemma answer_with_tools_rows:
  assumes "answer_with_tools env docId document conv am calls s tr = (resp, s', tr')"
    and "fst resp \<noteq> 200"
  shows "s' = s"
  using assms by (auto simp: answer_with_tools_def Let_def split: sum.splits)

lemma retrieve_and_complete_rows:
  assumes "retrieve_and_complete env docId document msgs lastMessage s tr = (resp, s', tr')"
    and "fst resp \<noteq> 200"
  shows "s' = s"
  using assms
  by (auto simp: retrieve_and_complete_def Let_def
      split: sum.splits option.splits list.splits
      dest: answer_directly_rows answer_with_tools_rows)

lemma failed_turn_rows:
  assumes "POST_chat env req s = (resp, s', tr)" and "fst resp \<noteq> 200"
  shows "chatMessages s' = chatMessages s
       \<or> (\<exists>u. chatMessages s' = chatMessages s @ [u] \<and> msg_role u = js ''user'')"
proof -
  have "s' = s \<or> (\<exists>docId c. chatMessage_create env (message_data docId ''user'' c None) s = Inr s')"
    using assms
    by (auto simp: POST_chat_def Let_def
        split: chat_request.splits sum.splits option.splits if_splits
        dest: retrieve_and_complete_rows)
  then show ?thesis
  proof
    assume "s' = s"
    then show ?thesis by simp
  next
    assume "\<exists>docId c. chatMessage_create env (message_data docId ''user'' c None) s = Inr s'"
    then obtain docId c where
      "chatMessage_create env (message_data docId ''user'' c None) s = Inr s'"
      by blast
    from chatMessage_create_Inr(1) [OF this] obtain i where
      "chatMessages s' = chatMessages s @ [(message_data docId ''user'' c None)\<lparr>msg_id := i\<rparr>]"
      by blast
    then show ?thesis
      by (auto simp: message_data_fields)
  qed
qed

text \<open>
  C6, amended: no chat turn makes more than two completion calls. A turn that is not answered
  (a call throws, or the request is rejected) appends no assistant message to the store, at
  most the user message. In every chat turn that is answered (status 200), the user
  message and exactly one assistant message are appended to the store. If the first
  completion response requests no tool call, that call is the only completion call, and
  the assistant message holds the content of its response and \<open>toolCalls = null\<close>. If it
  requests N tool calls, exactly one more completion call is made, the assistant message
  holds the content of the second response, whatever that response contains, and its
  \<open>toolCalls\<close> is the list of the N calls.
\<close>

theorem C6_one_assistant_message_and_at_most_two_completions:
  assumes "POST_chat env req s = (resp, s', tr)"
  shows "length (filter is_completion tr) \<le> 2
       \<and> (fst resp \<noteq> 200 \<longrightarrow>
            chatMessages s' = chatMessages s
            \<or> (\<exists>u. chatMessages s' = chatMessages s @ [u] \<and> msg_role u = js ''user''))
       \<and> (fst resp = 200 \<longrightarrow>
            (\<exists>conversation first u a.
               chat_completion env conversation True = Inr first
             \<and> chatMessages s' = chatMessages s @ [u, a]
             \<and> msg_role u = js ''user'' \<and> msg_role a = js ''assistant''
             \<and> (requested_calls first = [] \<longrightarrow>
                   filter is_completion tr = [CreateCompletion conversation True]
                 \<and> msg_toolCalls a = None
                 \<and> msg_content a = content_or_empty first
                 \<and> snd resp = ChatAnswer first None)
             \<and> (requested_calls first \<noteq> [] \<longrightarrow>
                   (\<exists>final finalMessage.
                      filter is_completion tr
                        = [CreateCompletion conversation True, CreateCompletion final False]
                    \<and> chat_completion env final False = Inr finalMessage
                    \<and> msg_toolCalls a = Some (requested_calls first)
                    \<and> msg_content a = content_or_empty finalMessage
                    \<and> snd resp = ChatAnswer finalMessage (Some (requested_calls first))))))"
proof (intro conjI impI)
  show "length (filter is_completion tr) \<le> 2"
    using assms by (rule completions_bounded)
next
  assume "fst resp \<noteq> 200"
  with assms show "chatMessages s' = chatMessages s
      \<or> (\<exists>u. chatMessages s' = chatMessages s @ [u] \<and> msg_role u = js ''user'')"
    by (rule failed_turn_rows)
next
  assume ok: "fst resp = 200"
  then have run: "POST_chat env req s = ((200, snd resp), s', tr)"
    using assms by (cases resp) simp
  from successful_turn [OF run] obtain docId msgs document lastMessage s1 q first where
    usr: "chatMessage_create env (message_data docId ''user'' (cm_content lastMessage) None) s
             = Inr s1"
    and fst: "chat_completion env (first_conversation env q docId document msgs s1) True
             = Inr first"
    and direct: "requested_calls first = [] \<Longrightarrow>
               tr = turn_calls docId lastMessage q (first_conversation env q docId document msgs s1)
                      @ [CreateMessage
                           (message_data docId ''assistant'' (content_or_empty first) None)]
             \<and> snd resp = ChatAnswer first None
             \<and> chatMessage_create env
                  (message_data docId ''assistant'' (content_or_empty first) None) s1 = Inr s'"
    and tools: "requested_calls first \<noteq> [] \<Longrightarrow>
               (\<exists>toolResults finalMessage.
                  run_tools env document [] (requested_calls first) = Inr toolResults
                \<and> chat_completion env
                     (first_conversation env q docId document msgs s1 @ [AssistantMessage first]
                        @ map ToolMessage toolResults) False = Inr finalMessage
                \<and> tr = turn_calls docId lastMessage q
                          (first_conversation env q docId document msgs s1)
                        @ [CreateCompletion
                             (first_conversation env q docId document msgs s1
                                @ [AssistantMessage first] @ map ToolMessage toolResults) False,
                           CreateMessage
                             (message_data docId ''assistant'' (content_or_empty finalMessage)
                                (Some (requested_calls first)))]
                \<and> snd resp = ChatAnswer finalMessage (Some (requested_calls first))
                \<and> chatMessage_create env
                     (message_data docId ''assistant'' (content_or_empty finalMessage)
                        (Some (requested_calls first))) s1 = Inr s')"
    by blast
  from chatMessage_create_Inr(1) [OF usr] obtain i where
    u: "chatMessages s1 = chatMessages s
          @ [(message_data docId ''user'' (cm_content lastMessage) None)\<lparr>msg_id := i\<rparr>]"
    by blast
  define conversation where "conversation = first_conversation env q docId document msgs s1"
  show "\<exists>conversation first u a.
               chat_completion env conversation True = Inr first
             \<and> chatMessages s' = chatMessages s @ [u, a]
             \<and> msg_role u = js ''user'' \<and> msg_role a = js ''assistant''
             \<and> (requested_calls first = [] \<longrightarrow>
                   filter is_completion tr = [CreateCompletion conversation True]
                 \<and> msg_toolCalls a = None
                 \<and> msg_content a = content_or_empty first
                 \<and> snd resp = ChatAnswer first None)
             \<and> (requested_calls first \<noteq> [] \<longrightarrow>
                   (\<exists>final finalMessage.
                      filter is_completion tr
                        = [CreateCompletion conversation True, CreateCompletion final False]
                    \<and> chat_completion env final False = Inr finalMessage
                    \<and> msg_toolCalls a = Some (requested_calls first)
                    \<and> msg_content a = content_or_empty finalMessage
                    \<and> snd resp = ChatAnswer finalMessage (Some (requested_calls first))))"
  proof (cases "requested_calls first = []")
    case True
    from direct [OF True] have
      tr: "tr = turn_calls docId lastMessage q conversation
                 @ [CreateMessage (message_data docId ''assistant'' (content_or_empty first) None)]"
      and body: "snd resp = ChatAnswer first None"
      and cr: "chatMessage_create env
                  (message_data docId ''assistant'' (content_or_empty first) None) s1 = Inr s'"
      by (simp_all add: conversation_def)
    from chatMessage_create_Inr(1) [OF cr] obtain k where
      a: "chatMessages s' = chatMessages s1
          @ [(message_data docId ''assistant'' (content_or_empty first) None)\<lparr>msg_id := k\<rparr>]"
      by blast
    have "filter is_completion tr = [CreateCompletion conversation True]"
      by (simp add: tr completions_of_turn_calls)
    with True fst body a u show ?thesis
      unfolding conversation_def [symmetric]
      apply (rule_tac x = conversation in exI)
      apply (rule_tac x = first in exI)
      apply (rule_tac x = "(message_data docId ''user'' (cm_content lastMessage) None)\<lparr>msg_id := i\<rparr>" in exI)
      apply (rule_tac x = "(message_data docId ''assistant'' (content_or_empty first) None)\<lparr>msg_id := k\<rparr>" in exI)
      apply (simp add: message_data_fields)
      done
  next
    case False
    from tools [OF False] obtain toolResults finalMessage where
      fin: "chat_completion env
              (conversation @ [AssistantMessage first] @ map ToolMessage toolResults) False
              = Inr finalMessage"
      and tr: "tr = turn_calls docId lastMessage q conversation
                 @ [CreateCompletion
                      (conversation @ [AssistantMessage first] @ map ToolMessage toolResults) False,
                    CreateMessage
                      (message_data docId ''assistant'' (content_or_empty finalMessage)
                         (Some (requested_calls first)))]"
      and body: "snd resp = ChatAnswer finalMessage (Some (requested_calls first))"
      and cr: "chatMessage_create env
                 (message_data docId ''assistant'' (content_or_empty finalMessage)
                    (Some (requested_calls first))) s1 = Inr s'"
      unfolding conversation_def by blast
    from chatMessage_create_Inr(1) [OF cr] obtain k where
      a: "chatMessages s' = chatMessages s1
          @ [(message_data docId ''assistant'' (content_or_empty finalMessage)
                (Some (requested_calls first)))\<lparr>msg_id := k\<rparr>]"
      by blast
    have "filter is_completion tr
        = [CreateCompletion conversation True,
           CreateCompletion
             (conversation @ [AssistantMessage first] @ map ToolMessage toolResults) False]"
      by (simp add: tr completions_of_turn_calls)
    with False fst fin body a u show ?thesis
      unfolding conversation_def [symmetric]
      apply (rule_tac x = conversation in exI)
      apply (rule_tac x = first in exI)
      apply (rule_tac x = "(message_data docId ''user'' (cm_content lastMessage) None)\<lparr>msg_id := i\<rparr>" in exI)
      apply (rule_tac x = "(message_data docId ''assistant'' (content_or_empty finalMessage)
                (Some (requested_calls first)))\<lparr>msg_id := k\<rparr>" in exI)
      apply (simp add: message_data_fields)
      done
  qed
qed

section \<open>The context of the system message\<close>

lemma find_unique_row:
  assumes "distinct (map doc_id ds)" and "find (\<lambda>d. doc_id d = k) ds = Some x"
    and "y \<in> set ds" and "doc_id y = k"
  shows "y = x"
proof -
  from assms(2) have "x \<in> set ds" and "doc_id x = k"
    by (auto simp: find_Some_iff)
  moreover have "inj_on doc_id (set ds)"
    using assms(1) by (simp add: distinct_map)
  ultimately show ?thesis
    using assms(3,4) by (auto dest: inj_onD)
qed

lemma nearest_rows_text:
  assumes "distinct (map doc_id (documents s))"
    and "find (\<lambda>d. doc_id d = docId) (documents s) = Some document"
    and "r \<in> set (nearest_rows env q docId s)"
  shows "row_text r = doc_text document"
proof -
  define L where "L =
      [\<lparr>row_id = doc_id d, row_text = doc_text d, row_extracted = doc_extracted d,
         row_schema = doc_schema d, row_distance = distance env (emb_vector e) q\<rparr>.
        e \<leftarrow> embeddings s, d \<leftarrow> documents s, doc_id d = emb_documentId e, doc_id d = docId]"
  have "r \<in> set (take 3 (sort_key row_distance L))"
    using assms(3) by (simp add: nearest_rows_def L_def)
  then have "r \<in> set (sort_key row_distance L)"
    by (rule in_set_takeD)
  then have "r \<in> set L"
    by simp
  then obtain d where "d \<in> set (documents s)" "doc_id d = docId" "row_text r = doc_text d"
    unfolding L_def by (auto split: if_splits)
  with find_unique_row [OF assms(1,2)] show ?thesis by simp
qed

lemma contextText_is_document_text:
  assumes "distinct (map doc_id (documents s))"
    and "find (\<lambda>d. doc_id d = docId) (documents s) = Some document"
  shows "contextText (nearest_rows env q docId s) document = doc_text document"
proof (cases "nearest_rows env q docId s")
  case Nil
  then show ?thesis by (simp add: contextText_def)
next
  case (Cons r rs)
  then have "r \<in> set (nearest_rows env q docId s)" by simp
  from nearest_rows_text [OF assms this] show ?thesis
    using Cons by (simp add: contextText_def)
qed

lemma answer_directly_completions:
  "answer_directly env docId am s tr = (resp, s', tr') \<Longrightarrow>
   CreateCompletion ms auto \<in> set tr' \<Longrightarrow> CreateCompletion ms auto \<in> set tr"
  by (auto simp: answer_directly_def Let_def split: sum.splits)

lemma answer_with_tools_completions:
  "answer_with_tools env docId document conv am calls s tr = (resp, s', tr') \<Longrightarrow>
   CreateCompletion ms auto \<in> set tr' \<Longrightarrow>
   CreateCompletion ms auto \<in> set tr \<or> (\<exists>rest. ms = conv @ rest)"
  by (auto simp: answer_with_tools_def Let_def split: sum.splits)

lemma retrieve_and_complete_completions:
  assumes "retrieve_and_complete env docId document msgs lastMessage s tr = (resp, s', tr')"
    and "CreateCompletion ms auto \<in> set tr'"
  shows "CreateCompletion ms auto \<in> set tr
       \<or> (\<exists>q rest. ms = first_conversation env q docId document msgs s @ rest)"
  using assms
  apply (auto simp: retrieve_and_complete_def Let_def first_conversation_def queryNearest_def
      split: sum.splits option.splits list.splits
      dest!: answer_directly_completions answer_with_tools_completions)
  done

text \<open>
  C8: in a store that satisfies its key constraints, every completion call of a chat turn
  starts with the system message built from the full stored text of the document of the
  turn. The context computed from the rows of the nearest-neighbour query equals that text
  for every query vector, whatever the embeddings are, before and after the turn: all rows
  carry the text of that one document, so both branches of the choice yield it (also when
  the text is empty).
\<close>

theorem C8_context_is_the_document_text:
  assumes "db_ok s" and "POST_chat env req s = (resp, s', tr)"
    and "CreateCompletion ms auto \<in> set tr"
  shows "\<exists>docId document rest.
           find (\<lambda>d. doc_id d = docId) (documents s) = Some document
         \<and> (\<forall>q. contextText (nearest_rows env q docId s) document = doc_text document)
         \<and> (\<forall>q. contextText (nearest_rows env q docId s') document = doc_text document)
         \<and> ms = SystemMessage (systemMessage env (doc_text document) document) # rest"
proof -
  from assms(2,3) obtain docId msgs document lastMessage s1 where
    doc: "find (\<lambda>d. doc_id d = docId) (documents s) = Some document"
    and usr: "chatMessage_create env (message_data docId ''user'' (cm_content lastMessage) None) s
             = Inr s1"
    and com: "retrieve_and_complete env docId document msgs lastMessage s1
              [FindDocument docId,
               CreateMessage (message_data docId ''user'' (cm_content lastMessage) None)]
             = (resp, s', tr)"
    by (auto simp: POST_chat_def Let_def findUnique_def
        split: chat_request.splits sum.splits option.splits if_splits)
  have d1: "documents s1 = documents s"
    using chatMessage_create_Inr(2) [OF usr] .
  have d': "documents s' = documents s"
    using com d1
    by (auto simp: retrieve_and_complete_def answer_directly_def answer_with_tools_def Let_def
        split: sum.splits option.splits list.splits
        dest: chatMessage_create_Inr(2))
  have dist: "distinct (map doc_id (documents s))"
    using assms(1) by (simp add: db_ok_def)
  from retrieve_and_complete_completions [OF com assms(3)] obtain q rest where
    "ms = first_conversation env q docId document msgs s1 @ rest"
    by auto
  moreover have "contextText (nearest_rows env q docId s1) document = doc_text document"
    by (rule contextText_is_document_text) (simp_all add: d1 dist doc)
  moreover have "\<forall>q. contextText (nearest_rows env q docId s') document = doc_text document"
    by (rule allI, rule contextText_is_document_text) (simp_all add: d' dist doc)
  moreover have "\<forall>q. contextText (nearest_rows env q docId s) document = doc_text document"
    by (rule allI, rule contextText_is_document_text) (simp_all add: dist doc)
  ultimately show ?thesis
    using doc by (auto simp: first_conversation_def)
qed

section \<open>The loop over the tool calls\<close>

lemma run_tool_unknown: "\<not> is_known_tool tc \<Longrightarrow> run_tool env document tc = Inr []"
  by (auto simp: run_tool_def is_known_tool_def)




section \<open>The text search tool\<close>

lemma js_includes_empty: "js_includes s []"
  by (cases s) (simp_all add: startsWith_def)

lemma split_on_not_Nil: "split_on sep t \<noteq> []"
  by (induction t) (auto split: list.splits)

lemma split_on_single_empty: "split_on sep t = [[]] \<longleftrightarrow> t = []"
  using split_on_not_Nil [of sep "tl t"]
  by (cases t) (auto split: list.splits)

lemma join_empty_iff: "join [sep] ls = [] \<longleftrightarrow> ls = [] \<or> ls = [[]]"
proof (cases ls)
  case Nil
  then show ?thesis by simp
next
  case (Cons l ls')
  then show ?thesis by (cases ls') simp_all
qed


lemma take5_single: "take 5 ls = [x] \<longleftrightarrow> ls = [x]"
proof
  assume a: "take 5 ls = [x]"
  then have "length (take 5 ls) = 1"
    by simp
  then have "length ls = 1"
    by (simp add: min_def split: if_splits)
  with a show "ls = [x]"
    by simp
qed simp

lemma first_lines_empty_iff:
  "join [0x000A] (take 5 (split_on 0x000A t)) = [] \<longleftrightarrow> t = []"
proof -
  have "join [0x000A] (take 5 (split_on 0x000A t)) = []
      \<longleftrightarrow> take 5 (split_on 0x000A t) = [] \<or> take 5 (split_on 0x000A t) = [[]]"
    by (rule join_empty_iff)
  also have "\<dots> \<longleftrightarrow> split_on 0x000A t = [[]]"
    using split_on_not_Nil [of "0x000A" t] by (simp only: take5_single take_eq_Nil) simp
  also have "\<dots> \<longleftrightarrow> t = []"
    by (rule split_on_single_empty)
  finally show ?thesis .
qed

lemma tool_names_differ: "js ''search_document_text'' \<noteq> js ''get_extracted_data''"
  by (simp add: js_def)

lemma join_Cons: "join sep (l # ls) = (if ls = [] then l else l @ sep @ join sep ls)"
  by (cases ls) simp_all

lemma join_take_split: "join [0x000A] (take n (split_on 0x000A t)) = first_lines n t"
proof (induction t arbitrary: n)
  case Nil
  then show ?case by (cases n) simp_all
next
  case (Cons c cs)
  show ?case
  proof (cases n)
    case 0
    then show ?thesis by simp
  next
    case (Suc k)
    obtain l ls where sp: "split_on 0x000A cs = l # ls"
      using split_on_not_Nil [of "0x000A" cs] by (cases "split_on 0x000A cs") auto
    show ?thesis
    proof (cases "c = 0x000A")
      case True
      have "take k (split_on 0x000A cs) = [] \<longleftrightarrow> k = 0"
        using sp by (cases k) simp_all
      then show ?thesis
        using True Suc Cons.IH [of k] by (simp add: join_Cons)
    next
      case False
      have "join [0x000A] ((c # l) # take k ls) = c # join [0x000A] (l # take k ls)"
        by (simp add: join_Cons)
      moreover have "join [0x000A] (l # take k ls) = first_lines (Suc k) cs"
        using Cons.IH [of "Suc k"] sp by simp
      ultimately show ?thesis
        using False Suc sp by simp
    qed
  qed
qed

lemma first_lines_all: "line_count t \<le> n \<Longrightarrow> first_lines n t = t"
proof (induction t arbitrary: n)
  case Nil
  then show ?case by (cases n) (simp_all add: line_count_def)
next
  case (Cons c cs)
  then obtain k where n: "n = Suc k"
    by (cases n) (simp_all add: line_count_def)
  show ?case
  proof (cases "c = 0x000A")
    case True
    with Cons.prems n have "line_count cs \<le> k"
      by (simp add: line_count_def)
    moreover from this have "k \<noteq> 0"
      by (simp add: line_count_def)
    ultimately show ?thesis
      using True n Cons.IH [of k] by simp
  next
    case False
    with Cons.prems n have "line_count cs \<le> Suc k"
      by (simp add: line_count_def)
    then show ?thesis
      using False n Cons.IH [of "Suc k"] by simp
  qed
qed



lemma search_with_empty_query:
  assumes "parse_arguments env tc = Inr args"
    and "get_member args ''query'' = Inr None
         \<or> get_member args ''query'' = Inr (Some (JString []))"
    and "lower_case env [] = []"
  shows "search_document_text env document tc
           = Inr (tool_message tc
                    (Some (if doc_text document = [] then js ''No matching text found.''
                           else first_lines 5 (doc_text document))))"
proof -
  from assms(2,3) obtain q where
    gq: "get_member args ''query'' = Inr q" and sq: "search_query env q = Inr []"
    by (auto simp: search_query_def)
  have "filter (\<lambda>line. js_includes (lower_case env line) []) ls = ls" for ls
    by (simp add: js_includes_empty)
  then show ?thesis
    using first_lines_empty_iff [of "doc_text document"]
    by (simp add: search_document_text_def assms(1) gq sq Let_def join_take_split)
qed


section \<open>The concrete chat turns, step by step\<close>

lemma chat_env_ok_fields:
  "find_outcome chat_env_ok = None"
  "message_insert chat_env_ok m = Inr (if msg_role m = js ''user'' then js ''msg1'' else js ''msg2'')"
  "query_embedding chat_env_ok t = Inr (replicate 3072 (1 / 4))"
  "nearest_outcome chat_env_ok = None"
  "chat_completion chat_env_ok ms auto = Inr plain_answer"
  "parse_json chat_env_ok = parse_braces"
  "lower_case chat_env_ok = ascii_lower"
  by (simp_all add: chat_env_ok_def)

lemma chat_env_tools_fields:
  "find_outcome chat_env_tools = None"
  "message_insert chat_env_tools m
     = Inr (if msg_role m = js ''user'' then js ''msg1'' else js ''msg2'')"
  "query_embedding chat_env_tools t = Inr (replicate 3072 (1 / 4))"
  "nearest_outcome chat_env_tools = None"
  "chat_completion chat_env_tools ms True = Inr tool_request"
  "chat_completion chat_env_tools ms False = Inr plain_answer"
  "parse_json chat_env_tools = parse_braces"
  "lower_case chat_env_tools = ascii_lower"
  by (simp_all add: chat_env_tools_def chat_env_ok_def)

lemma db_after_note_ok: "db_ok db_after_note"
  by (simp add: db_ok_def db_after_note_def note_embedding_def note_document_def)

lemma find_note:
  "find (\<lambda>d. doc_id d = js ''doc1'') (documents db_after_note) = Some note_document"
  by (simp add: db_after_note_def note_document_def)

lemma insert_question:
  assumes "message_insert env (message_data (js ''doc1'') ''user'' (js ''Who is this about?'') None)
             = Inr (js ''msg1'')"
  shows "chatMessage_create env
           (message_data (js ''doc1'') ''user'' (js ''Who is this about?'') None) db_after_note
         = Inr (db_after_note\<lparr>chatMessages := [question_row]\<rparr>)"
  using assms
  by (simp add: chatMessage_create_def db_after_note_def note_document_def message_data_def
      question_row_def)

lemma ids_differ: "js ''msg2'' \<noteq> js ''msg1''"
  by (simp add: js_def)

lemma insert_answer:
  assumes "message_insert env
             (message_data (js ''doc1'') ''assistant'' (js ''The note is about John Doe.'') tcs)
             = Inr (js ''msg2'')"
  shows "chatMessage_create env
           (message_data (js ''doc1'') ''assistant'' (js ''The note is about John Doe.'') tcs)
           (db_after_note\<lparr>chatMessages := [question_row]\<rparr>)
         = Inr (db_after_note\<lparr>chatMessages := [question_row, answer_row tcs]\<rparr>)"
  using assms
  by (simp add: chatMessage_create_def db_after_note_def note_document_def message_data_def
      question_row_def answer_row_def ids_differ)

lemma note_context:
  "contextText (nearest_rows env q (js ''doc1'') (db_after_note\<lparr>chatMessages := ms\<rparr>))
     note_document = doc_text note_document"
  by (rule contextText_is_document_text)
    (simp_all add: db_after_note_def note_document_def)

lemma question_fields:
  "cm_role question = js ''user''" "cm_content question = js ''Who is this about?''"
  "nth_opt [question] 0 = Some question"
  by (simp_all add: question_def nth_opt_def)

lemma plain_answer_fields:
  "am_tool_calls plain_answer = None"
  "content_or_empty plain_answer = js ''The note is about John Doe.''"
  by (simp_all add: plain_answer_def content_or_empty_def)

lemma doc1_not_empty: "js ''doc1'' \<noteq> []"
  by (simp add: js_def)

lemma question_turn:
  "POST_chat chat_env_ok question_request db_after_note
     = ((200, ChatAnswer plain_answer None),
        db_after_note\<lparr>chatMessages := [question_row, answer_row None]\<rparr>,
        question_calls chat_env_ok
          @ [CreateMessage (message_data (js ''doc1'') ''assistant''
               (js ''The note is about John Doe.'') None)])"
proof -
  have u: "chatMessage_create chat_env_ok
           (message_data (js ''doc1'') ''user'' (js ''Who is this about?'') None) db_after_note
         = Inr (db_after_note\<lparr>chatMessages := [question_row]\<rparr>)"
    by (rule insert_question) (simp add: chat_env_ok_fields message_data_def)
  have a: "chatMessage_create chat_env_ok
           (message_data (js ''doc1'') ''assistant'' (js ''The note is about John Doe.'') None)
           (db_after_note\<lparr>chatMessages := [question_row]\<rparr>)
         = Inr (db_after_note\<lparr>chatMessages := [question_row, answer_row None]\<rparr>)"
    by (rule insert_answer) (simp add: chat_env_ok_fields message_data_def roles_differ)
  show ?thesis
    by (simp add: POST_chat_def question_request_def doc1_not_empty findUnique_def
        chat_env_ok_fields find_note question_fields u retrieve_and_complete_def queryNearest_def
        note_context answer_directly_def plain_answer_fields a question_calls_def
        turn_calls_def note_conversation_def Let_def)
qed


lemma note_first_lines:
  "first_lines 5 (js ''John Doe, SSN [REDACTED_SSN].'') = js ''John Doe, SSN [REDACTED_SSN].''"
  by (rule first_lines_all) (simp add: line_count_def js_def)

lemma search_call_arguments:
  "parse_arguments chat_env_tools search_call = Inr (JObject [])"
  by (simp add: parse_arguments_def chat_env_tools_fields search_call_def parse_braces_def js_def)

lemma search_call_fields:
  "tc_type search_call = js ''function''" "tc_name search_call = js ''search_document_text''"
  "get_member (JObject []) ''query'' = Inr None
   \<or> get_member (JObject []) ''query'' = Inr (Some (JString []))"
  "lower_case chat_env_tools [] = []"
  by (simp_all add: search_call_def chat_env_tools_fields ascii_lower_def)

lemma run_search_call:
  "run_tool chat_env_tools note_document search_call = Inr [search_result]"
proof -
  have "search_document_text chat_env_tools note_document search_call
      = Inr (tool_message search_call
               (Some (if doc_text note_document = [] then js ''No matching text found.''
                      else first_lines 5 (doc_text note_document))))"
    by (rule search_with_empty_query [OF search_call_arguments search_call_fields(3,4)])
  moreover have "doc_text note_document = js ''John Doe, SSN [REDACTED_SSN].''"
    by (simp add: note_document_def)
  moreover have "js ''John Doe, SSN [REDACTED_SSN].'' \<noteq> []"
    by (simp add: js_def)
  ultimately have "search_document_text chat_env_tools note_document search_call
      = Inr search_result"
    by (simp add: note_first_lines tool_message_def search_result_def search_call_def)
  then show ?thesis
    by (simp add: run_tool_def search_call_def tool_names_differ)
qed




lemma inherited_members:
  "stringify_value chat_env_ok (walk_path chat_env_ok (Data (JObject [])) [js ''__proto__''])
     = Some (js ''{}'')"
  "stringify_value chat_env_ok (walk_path chat_env_ok (Data (JObject [])) [js ''toString''])
     = None"
  "stringify_value chat_env_ok (walk_path chat_env_ok (Data (JObject [])) [js ''nothing''])
     = Some (js ''null'')"
  by code_simp+

lemma chat_env_bad_fields:
  "find_outcome chat_env_bad = None"
  "message_insert chat_env_bad m
     = Inr (if msg_role m = js ''user'' then js ''msg1'' else js ''msg2'')"
  "query_embedding chat_env_bad t = Inr (replicate 3072 (1 / 4))"
  "nearest_outcome chat_env_bad = None"
  "chat_completion chat_env_bad ms True = Inr bad_request"
  "parse_json chat_env_bad = parse_braces"
  by (simp_all add: chat_env_bad_def chat_env_ok_def)

lemma bad_request_fields:
  "am_tool_calls bad_request = Some [bad_call]"
  "requested_calls bad_request = [bad_call]"
  by (simp_all add: bad_request_def requested_calls_def)

lemma run_bad_call:
  "run_tool chat_env_bad note_document bad_call
     = Inl (Error ''Unexpected token in JSON at position 0'')"
proof -
  have "js ''{'' \<noteq> []" and "js ''{'' \<noteq> js ''{}''"
    by (simp_all add: js_def)
  then have "parse_arguments chat_env_bad bad_call
      = Inl (Error ''Unexpected token in JSON at position 0'')"
    by (simp add: parse_arguments_def chat_env_bad_fields bad_call_def parse_braces_def)
  then show ?thesis
    by (simp add: run_tool_def bad_call_def tool_names_differ search_document_text_def)
qed

lemma bad_turn:
  "POST_chat chat_env_bad question_request db_after_note
     = ((500, ChatError (js ''Unexpected token in JSON at position 0'')),
        db_after_note\<lparr>chatMessages := [question_row]\<rparr>,
        question_calls chat_env_bad)"
proof -
  have u: "chatMessage_create chat_env_bad
           (message_data (js ''doc1'') ''user'' (js ''Who is this about?'') None) db_after_note
         = Inr (db_after_note\<lparr>chatMessages := [question_row]\<rparr>)"
    by (rule insert_question) (simp add: chat_env_bad_fields message_data_def)
  show ?thesis
    by (simp add: POST_chat_def question_request_def doc1_not_empty findUnique_def
        chat_env_bad_fields find_note question_fields u retrieve_and_complete_def
        queryNearest_def note_context answer_with_tools_def question_calls_def turn_calls_def
        note_conversation_def Let_def bad_request_fields run_bad_call chat_failed_def
        error_message_def Error_def)
qed

lemma unknown_call_unknown: "\<not> is_known_tool unknown_call"
  by (simp add: is_known_tool_def unknown_call_def js_def)

lemma run_calls:
  "run_tools chat_env_tools note_document [] [search_call, unknown_call] = Inr [search_result]"
  by (simp add: run_search_call run_tool_unknown [OF unknown_call_unknown])

lemma tool_request_fields:
  "am_tool_calls tool_request = Some [search_call, unknown_call]"
  "requested_calls tool_request = [search_call, unknown_call]"
  by (simp_all add: tool_request_def requested_calls_def)

lemma tool_turn:
  "POST_chat chat_env_tools question_request db_after_note
     = ((200, ChatAnswer plain_answer (Some [search_call, unknown_call])),
        db_after_note\<lparr>chatMessages :=
          [question_row, answer_row (Some [search_call, unknown_call])]\<rparr>,
        question_calls chat_env_tools
          @ [CreateCompletion
               (note_conversation chat_env_tools
                  @ [AssistantMessage tool_request, ToolMessage search_result]) False,
             CreateMessage (message_data (js ''doc1'') ''assistant''
               (js ''The note is about John Doe.'') (Some [search_call, unknown_call]))])"
proof -
  have u: "chatMessage_create chat_env_tools
           (message_data (js ''doc1'') ''user'' (js ''Who is this about?'') None) db_after_note
         = Inr (db_after_note\<lparr>chatMessages := [question_row]\<rparr>)"
    by (rule insert_question) (simp add: chat_env_tools_fields message_data_def)
  have a: "chatMessage_create chat_env_tools
           (message_data (js ''doc1'') ''assistant'' (js ''The note is about John Doe.'')
              (Some [search_call, unknown_call]))
           (db_after_note\<lparr>chatMessages := [question_row]\<rparr>)
         = Inr (db_after_note\<lparr>chatMessages :=
                  [question_row, answer_row (Some [search_call, unknown_call])]\<rparr>)"
    by (rule insert_answer) (simp add: chat_env_tools_fields message_data_def roles_differ)
  show ?thesis
    by (simp add: POST_chat_def question_request_def doc1_not_empty findUnique_def
        chat_env_tools_fields find_note question_fields u retrieve_and_complete_def
        queryNearest_def note_context answer_with_tools_def plain_answer_fields a
        question_calls_def turn_calls_def note_conversation_def Let_def tool_request_fields
        run_search_call run_tool_unknown [OF unknown_call_unknown])
qed


lemma question_calls_kinds:
  "(question_calls env @ rest) ! 0 = FindDocument (js ''doc1'')"
  "is_store_read ((question_calls env @ rest) ! 0)"
  "is_user_persist ((question_calls env @ rest) ! 1)"
  "is_service_call ((question_calls env @ rest) ! 4)"
  "CreateCompletion (note_conversation env) True \<in> set (question_calls env @ rest)"
  "length (question_calls env) = 5"
  by (simp_all add: question_calls_def turn_calls_def message_data_def)

section \<open>The claims about the chat turn on the concrete turns\<close>

text \<open>
  C3, as stated: persisting the user message strictly precedes every external call of the
  turn, store reads included. It fails: in the turn that asks one question about the note,
  the first call is the lookup of the document, a read of the store, and the insert of the
  user message is the second.
\<close>

theorem C3_document_lookup_precedes_user_persist:
  "POST_chat chat_env_ok question_request db_after_note
     = ((200, ChatAnswer plain_answer None),
        db_after_note\<lparr>chatMessages := [question_row, answer_row None]\<rparr>,
        question_calls chat_env_ok
          @ [CreateMessage (message_data (js ''doc1'') ''assistant''
               (js ''The note is about John Doe.'') None)])
   \<and> is_store_read
        ((question_calls chat_env_ok
           @ [CreateMessage (message_data (js ''doc1'') ''assistant''
                (js ''The note is about John Doe.'') None)]) ! 0)
   \<and> is_user_persist
        ((question_calls chat_env_ok
           @ [CreateMessage (message_data (js ''doc1'') ''assistant''
                (js ''The note is about John Doe.'') None)]) ! 1)"
  by (intro conjI question_turn question_calls_kinds)

text \<open>
  The theorems about the chat turn at the two concrete turns: the question answered at
  once, and the question answered after a text search and a call of an unknown tool.
\<close>

theorem C3_user_persist_before_service_calls_witness:
  "\<exists>j<4. is_user_persist
     ((question_calls chat_env_ok
        @ [CreateMessage (message_data (js ''doc1'') ''assistant''
             (js ''The note is about John Doe.'') None)]) ! j)"
proof -
  have "4 < length (question_calls chat_env_ok
        @ [CreateMessage (message_data (js ''doc1'') ''assistant''
             (js ''The note is about John Doe.'') None)])"
    by (simp add: question_calls_kinds)
  from C3_user_persist_before_service_calls [OF question_turn this]
  show ?thesis
    by (simp add: question_calls_kinds)
qed

theorem C6_one_assistant_message_and_at_most_two_completions_witness:
  "\<exists>conversation first u a.
     chat_completion chat_env_tools conversation True = Inr first
   \<and> chatMessages (db_after_note\<lparr>chatMessages :=
          [question_row, answer_row (Some [search_call, unknown_call])]\<rparr>)
       = chatMessages db_after_note @ [u, a]
   \<and> msg_role u = js ''user'' \<and> msg_role a = js ''assistant''
   \<and> requested_calls first \<noteq> []
   \<and> (\<exists>final finalMessage.
          filter is_completion
            (question_calls chat_env_tools
              @ [CreateCompletion
                   (note_conversation chat_env_tools
                      @ [AssistantMessage tool_request, ToolMessage search_result]) False,
                 CreateMessage (message_data (js ''doc1'') ''assistant''
                   (js ''The note is about John Doe.'') (Some [search_call, unknown_call]))])
            = [CreateCompletion conversation True, CreateCompletion final False]
        \<and> chat_completion chat_env_tools final False = Inr finalMessage
        \<and> msg_toolCalls a = Some (requested_calls first)
        \<and> msg_content a = content_or_empty finalMessage)"
proof -
  from C6_one_assistant_message_and_at_most_two_completions [OF tool_turn]
  obtain conversation first u a where
    f: "chat_completion chat_env_tools conversation True = Inr first"
    and rest: "chatMessages (db_after_note\<lparr>chatMessages :=
          [question_row, answer_row (Some [search_call, unknown_call])]\<rparr>)
       = chatMessages db_after_note @ [u, a]"
      "msg_role u = js ''user''" "msg_role a = js ''assistant''"
      "requested_calls first \<noteq> [] \<longrightarrow>
         (\<exists>final finalMessage.
          filter is_completion
            (question_calls chat_env_tools
              @ [CreateCompletion
                   (note_conversation chat_env_tools
                      @ [AssistantMessage tool_request, ToolMessage search_result]) False,
                 CreateMessage (message_data (js ''doc1'') ''assistant''
                   (js ''The note is about John Doe.'') (Some [search_call, unknown_call]))])
            = [CreateCompletion conversation True, CreateCompletion final False]
        \<and> chat_completion chat_env_tools final False = Inr finalMessage
        \<and> msg_toolCalls a = Some (requested_calls first)
        \<and> msg_content a = content_or_empty finalMessage
        \<and> snd (200::nat, ChatAnswer plain_answer (Some [search_call, unknown_call]))
            = ChatAnswer finalMessage (Some (requested_calls first)))"
    by auto
  from f have "first = tool_request"
    by (simp add: chat_env_tools_fields)
  then have "requested_calls first \<noteq> []"
    by (simp add: tool_request_fields)
  with f rest show ?thesis
    by blast
qed

theorem C8_context_is_the_document_text_witness:
  "\<exists>docId document rest.
     find (\<lambda>d. doc_id d = docId) (documents db_after_note) = Some document
   \<and> (\<forall>q. contextText (nearest_rows chat_env_ok q docId db_after_note) document
          = doc_text document)
   \<and> (\<forall>q. contextText (nearest_rows chat_env_ok q docId
               (db_after_note\<lparr>chatMessages := [question_row, answer_row None]\<rparr>)) document
          = doc_text document)
   \<and> note_conversation chat_env_ok
       = SystemMessage (systemMessage chat_env_ok (doc_text document) document) # rest"
  by (rule C8_context_is_the_document_text
      [OF db_after_note_ok question_turn question_calls_kinds(5)])



text \<open>
  C6, as stated: in every chat turn whose first completion response holds N tool calls,
  exactly one assistant message is persisted and exactly one more completion call is made.
  It fails: when the one requested call has the arguments \<open>{\<close>, which are not JSON, parsing
  them throws, the turn is answered with status 500 and the message of the parser's error
  after its one completion call, and the store gains the user message only.
\<close>

theorem C6_unparsable_tool_arguments_end_the_turn:
  "chat_completion chat_env_bad (note_conversation chat_env_bad) True = Inr bad_request
   \<and> requested_calls bad_request = [bad_call]
   \<and> POST_chat chat_env_bad question_request db_after_note
       = ((500, ChatError (js ''Unexpected token in JSON at position 0'')),
          db_after_note\<lparr>chatMessages := [question_row]\<rparr>,
          question_calls chat_env_bad)
   \<and> filter is_completion (question_calls chat_env_bad)
       = [CreateCompletion (note_conversation chat_env_bad) True]
   \<and> filter (\<lambda>m. msg_role m = js ''assistant'')
        (chatMessages (db_after_note\<lparr>chatMessages := [question_row]\<rparr>)) = []"
  using bad_turn
  by (simp add: chat_env_bad_fields bad_request_fields question_calls_def
      completions_of_turn_calls question_row_def roles_differ [symmetric])

end
